theory Spec2Isabelle
  imports Complex_Main "HOL-Library.AList"
begin

section \<open>Python primitives used by the ticket scanner\<close>

text \<open>
  Strings are lists of characters; a character stands for a code point below 256.
  The characters that the string syntax cannot write are named.
\<close>

definition backslash :: string where
  "backslash = [CHR 0x5C]"

definition pound :: string where
  "pound = [CHR 0xA3]"

definition quote :: string where
  "quote = [CHR 0x27]"

definition newline :: char where
  "newline = CHR 0x0A"

text \<open>\<^verbatim>\<open>str.lower()\<close> on the ASCII letters; other characters are left as they are. (It is
  only used to look for ASCII keywords in the lowered text.)\<close>

definition ascii_uppercase :: string where
  "ascii_uppercase = ''ABCDEFGHIJKLMNOPQRSTUVWXYZ''"

definition ascii_lowercase :: string where
  "ascii_lowercase = ''abcdefghijklmnopqrstuvwxyz''"

definition lower_char :: "char \<Rightarrow> char" where
  "lower_char c = (case map_of (zip ascii_uppercase ascii_lowercase) c of Some d \<Rightarrow> d | None \<Rightarrow> c)"

definition py_lower :: "string \<Rightarrow> string" where
  "py_lower s = map lower_char s"

text \<open>\<^verbatim>\<open>s.startswith(sub)\<close>, \<^verbatim>\<open>sub in s\<close> and \<^verbatim>\<open>s.find(sub)\<close> (the index of the first
  occurrence, or -1).\<close>

primrec startswith :: "string \<Rightarrow> string \<Rightarrow> bool" where
  "startswith [] s = True"
| "startswith (c # cs) s = (case s of [] \<Rightarrow> False | d # ds \<Rightarrow> c = d \<and> startswith cs ds)"

primrec py_in :: "string \<Rightarrow> string \<Rightarrow> bool" where
  "py_in sub [] = (sub = [])"
| "py_in sub (c # cs) = (startswith sub (c # cs) \<or> py_in sub cs)"

primrec py_find :: "string \<Rightarrow> string \<Rightarrow> int" where
  "py_find sub [] = (if sub = [] then 0 else - 1)"
| "py_find sub (c # cs) =
     (if startswith sub (c # cs) then 0
      else (let r = py_find sub cs in if r < 0 then - 1 else r + 1))"

text \<open>\<^verbatim>\<open>str.strip()\<close>: the characters below 256 for which \<^verbatim>\<open>str.isspace()\<close> holds.\<close>

definition py_isspace :: "char \<Rightarrow> bool" where
  "py_isspace c = (c \<in> set [CHR 0x09, CHR 0x0A, CHR 0x0B, CHR 0x0C, CHR 0x0D, CHR 0x1C,
                              CHR 0x1D, CHR 0x1E, CHR 0x1F, CHR 0x20, CHR 0x85, CHR 0xA0])"

definition py_strip :: "string \<Rightarrow> string" where
  "py_strip s = rev (dropWhile py_isspace (rev (dropWhile py_isspace s)))"

text \<open>\<^verbatim>\<open>s.replace(old, new)\<close> for a non-empty \<open>old\<close>: every occurrence, left to right, without
  overlap. (The scanner only replaces fixed non-empty tokens; an empty \<open>old\<close> leaves the
  string unchanged here.)\<close>

function py_replace :: "string \<Rightarrow> string \<Rightarrow> string \<Rightarrow> string" where
  "py_replace old new [] = []"
| "py_replace old new (c # cs) =
     (if old \<noteq> [] \<and> startswith old (c # cs)
      then new @ py_replace old new (drop (length old) (c # cs))
      else c # py_replace old new cs)"
  by pat_completeness auto
termination
  by (relation "measure (\<lambda>(old, new, s). length s)") auto

text \<open>\<^verbatim>\<open>'-'.join(parts)\<close>.\<close>

fun join_dash :: "string list \<Rightarrow> string" where
  "join_dash [] = []"
| "join_dash [p] = p"
| "join_dash (p # q # ps) = p @ ''-'' @ join_dash (q # ps)"

text \<open>\<^verbatim>\<open>str(n)\<close> for an integer, in decimal.\<close>

definition digit_char :: "nat \<Rightarrow> char" where
  "digit_char d = ''0123456789'' ! d"

function str_nat :: "nat \<Rightarrow> string" where
  "str_nat n = (if n < 10 then [digit_char n] else str_nat (n div 10) @ [digit_char (n mod 10)])"
  by pat_completeness auto
termination
  by (relation "measure (\<lambda>n. n)") auto

declare str_nat.simps [simp del]

definition py_str :: "int \<Rightarrow> string" where
  "py_str i = (if i < 0 then ''-'' @ str_nat (nat (- i)) else str_nat (nat i))"

text \<open>\<^verbatim>\<open>s[-6:]\<close>: the last six characters, or all of \<open>s\<close> when it is shorter.\<close>

definition last6 :: "string \<Rightarrow> string" where
  "last6 s = drop (length s - 6) s"

text \<open>\<^verbatim>\<open>int(x)\<close> on a float truncates towards zero.\<close>

definition py_int :: "real \<Rightarrow> int" where
  "py_int x = (if 0 \<le> x then \<lfloor>x\<rfloor> else \<lceil>x\<rceil>)"

text \<open>The float literals \<^verbatim>\<open>0.05\<close> and \<^verbatim>\<open>0.2\<close> that measurements are compared with: the exact
  values of the floats, which are not the decimal fractions.\<close>

definition float_0_05 :: real where
  "float_0_05 = 3602879701896397 / 72057594037927936"

definition float_0_2 :: real where
  "float_0_2 = 3602879701896397 / 18014398509481984"

text \<open>Exceptions raised in a scan, each with the text \<^verbatim>\<open>str(e)\<close> gives; \<open>Cv2Error\<close> is the
  image library's \<^verbatim>\<open>cv2.error\<close>.\<close>

datatype py_error =
    ValueError string
  | TypeError string
  | ZeroDivisionError string
  | KeyError string
  | Cv2Error string

fun str_error :: "py_error \<Rightarrow> string" where
  "str_error (ValueError msg) = msg"
| "str_error (TypeError msg) = msg"
| "str_error (ZeroDivisionError msg) = msg"
| "str_error (KeyError k) = quote @ k @ quote"
| "str_error (Cv2Error msg) = msg"

text \<open>A dictionary is an association list in insertion order: \<^const>\<open>AList.update\<close> overwrites
  in place or appends, as assignment to a Python \<^verbatim>\<open>dict\<close> does.\<close>

definition has_key :: "('k \<times> 'v) list \<Rightarrow> 'k \<Rightarrow> bool" where
  "has_key d k = (map_of d k \<noteq> None)"

definition keys :: "('k \<times> 'v) list \<Rightarrow> 'k set" where
  "keys d = fst ` set d"

text \<open>Every score of a confidence dictionary lies in \<open>[0, 1]\<close>.\<close>

definition unit_scores :: "('k \<times> real) list \<Rightarrow> bool" where
  "unit_scores conf = list_all (\<lambda>(k, c). 0 \<le> c \<and> c \<le> 1) conf"

text \<open>The values of the extracted-data dictionary: the matched strings, and the boolean
  flag that reference synthesis stores.\<close>

datatype py_value = PyStr string | PyBool bool

text \<open>Every value of a data dictionary is a string.\<close>

definition all_strings :: "('k \<times> py_value) list \<Rightarrow> bool" where
  "all_strings d = list_all (\<lambda>(k, v). case v of PyStr s \<Rightarrow> True | PyBool b \<Rightarrow> False) d"

section \<open>Data model\<close>

text \<open>\<^verbatim>\<open>TicketField\<close>: a name, ordered regular expressions, and an optional region
  \<open>(x1, y1, x2, y2)\<close> of ratios of the image width and height.\<close>

record ticket_field =
  name :: string
  patterns :: "string list"
  region :: "(real \<times> real \<times> real \<times> real) option"

section \<open>External collaborators\<close>

datatype re_flag = IGNORECASE | MULTILINE

text \<open>What the image library computes for the type classifier on one image:
  \<^item> \<open>is_bgr\<close>: \<^verbatim>\<open>len(image.shape) == 3 and image.shape[2] == 3\<close>;
  \<^item> \<open>orange_mask\<close>, for the top tenth of the rows: \<open>Inl msg\<close> when that region is empty (an
    image of fewer than ten rows), on which \<^verbatim>\<open>cv2.cvtColor\<close> raises \<^verbatim>\<open>cv2.error\<close> with the
    message \<open>msg\<close>; else \<open>Inr (orange_pixels, mask_size)\<close>, the values of
    \<^verbatim>\<open>np.count_nonzero(mask)\<close> and \<^verbatim>\<open>mask.size\<close> for the orange mask of the region;
  \<^item> \<open>texture_measure\<close>: \<^verbatim>\<open>np.std(gray - blur)\<close>;
  \<^item> \<open>hough_lines\<close>: \<^verbatim>\<open>None\<close>, or the number of line segments \<^verbatim>\<open>cv2.HoughLinesP\<close> returns,
    and \<open>angles_std\<close>: \<^verbatim>\<open>np.std(angles)\<close> of their angles;
  \<^item> \<open>illumination_var\<close>: \<^verbatim>\<open>np.std\<close> of the luminance channel;
  \<^item> \<open>has_qr\<close>: the first component of \<^verbatim>\<open>qr_detector.detectAndDecode(gray)\<close>, which is the
    decoded text of a QR code and empty when none is decoded.\<close>

record classifier_inputs =
  is_bgr :: bool
  orange_mask :: "string + nat \<times> nat"
  texture_measure :: real
  hough_lines :: "nat option"
  angles_std :: real
  illumination_var :: real
  has_qr :: string

text \<open>The libraries the scanner calls, as functions of an abstract image type:
  \<^item> \<open>imread\<close>: \<^verbatim>\<open>cv2.imread\<close>, \<^verbatim>\<open>None\<close> when the file does not decode;
  \<^item> \<open>measurements\<close>: the classifier's image measurements;
  \<^item> \<open>preprocess_image\<close>, \<open>crop_ticket\<close>: the scanner's own \<^verbatim>\<open>_preprocess_image\<close> and
    \<^verbatim>\<open>_crop_ticket\<close>, which are image transformations throughout and are kept abstract
    (both take the ticket type the classifier stored);
  \<^item> \<open>shape\<close>: \<^verbatim>\<open>image.shape[:2]\<close>, height then width;
  \<^item> \<open>slice\<close>: \<^verbatim>\<open>image[y1:y2, x1:x2]\<close>;
  \<^item> \<open>image_to_string\<close>: \<^verbatim>\<open>pytesseract.image_to_string\<close>;
  \<^item> \<open>re_search\<close>: \<^verbatim>\<open>re.search(pattern, text, flags)\<close>, giving \<^verbatim>\<open>match.group(0)\<close>;
  \<^item> \<open>str_upper\<close>: \<^verbatim>\<open>str.upper()\<close>, which follows the Unicode case tables;
  \<^item> \<open>float_mul\<close>, \<open>float_div\<close>: multiplication and division of two numbers as floats, as
    the real number the result denotes;
  \<^item> \<open>time_time\<close>: \<^verbatim>\<open>time.time()\<close>.\<close>

record 'img cv_env =
  imread :: "string \<Rightarrow> 'img option"
  measurements :: "'img \<Rightarrow> classifier_inputs"
  preprocess_image :: "string \<Rightarrow> 'img \<Rightarrow> 'img"
  crop_ticket :: "string \<Rightarrow> 'img \<Rightarrow> 'img option"
  shape :: "'img \<Rightarrow> nat \<times> nat"
  slice :: "'img \<Rightarrow> int \<Rightarrow> int \<Rightarrow> int \<Rightarrow> int \<Rightarrow> 'img"
  image_to_string :: "'img \<Rightarrow> string"
  re_search :: "re_flag set \<Rightarrow> string \<Rightarrow> string \<Rightarrow> string option"
  str_upper :: "string \<Rightarrow> string"
  float_mul :: "real \<Rightarrow> real \<Rightarrow> real"
  float_div :: "real \<Rightarrow> real \<Rightarrow> real"
  time_time :: real

section \<open>Configurations\<close>

text \<open>\<^verbatim>\<open>get_trainline_configuration\<close> of \<^verbatim>\<open>trainline_ticket_digital_config.py\<close>.\<close>

definition get_trainline_configuration :: "ticket_field list" where
  "get_trainline_configuration =
   [
    \<lparr>name = ''ticket_provider'',
     patterns =
      [''(Eticket)'',
       ''(Trainline)''],
     region = Some (13/100, 12/100, 3/10, 14/100)\<rparr>,
    \<lparr>name = ''origin_station'',
     patterns =
      [''([A-Za-z'' @ backslash @ ''s]+(?::STATIONS)?)''],
     region = Some (0, 49/100, 5/10, 53/100)\<rparr>,
    \<lparr>name = ''origin_code'',
     patterns =
      [''([A-Z]{3})''],
     region = Some (0, 5/10, 46/100, 61/100)\<rparr>,
    \<lparr>name = ''destination_station'',
     patterns =
      [''([A-Za-z'' @ backslash @ ''s]+)''],
     region = Some (5/10, 49/100, 1, 53/100)\<rparr>,
    \<lparr>name = ''destination_code'',
     patterns =
      [''(GRA)'',
       ''([A-Z]{3})''],
     region = Some (5/10, 5/10, 1, 61/100)\<rparr>,
    \<lparr>name = ''travel_date'',
     patterns =
      [''('' @ backslash @ ''d{2}'' @ backslash @ ''s+[A-Za-z]{3}'' @ backslash @ ''s+'' @ backslash @ ''d{4})'',
       ''08'' @ backslash @ ''s+Feb'' @ backslash @ ''s+2025''],
     region = Some (22/100, 58/100, 4/10, 6/10)\<rparr>,
    \<lparr>name = ''journey_direction'',
     patterns =
      [''(Ret):'' @ backslash @ ''s+[A-Z]{3}'' @ backslash @ ''s*-'' @ backslash @ ''s*[A-Z]{3}'',
       ''Out:'' @ backslash @ ''s+[A-Z]{3}'' @ backslash @ ''s*-'' @ backslash @ ''s*[A-Z]{3}''],
     region = Some (5/10, 35/100, 1, 5/10)\<rparr>,
    \<lparr>name = ''ticket_type'',
     patterns =
      [''(Off-Peak|Anytime|Advance|Super Off-Peak)(?:'' @ backslash @ ''s+Return|Single)?''],
     region = Some (0, 5/10, 6/10, 8/10)\<rparr>,
    \<lparr>name = ''route'',
     patterns =
      [''(Any Permitted)'',
       ''(Not via .+|Via .+|Any Permitted)''],
     region = Some (55/100, 5/10, 1, 8/10)\<rparr>,
    \<lparr>name = ''passenger_type'',
     patterns =
      [''(ADULT)'',
       ''(CHILD)''],
     region = Some (6/100, 8/10, 2/10, 83/100)\<rparr>,
    \<lparr>name = ''railcard'',
     patterns =
      [''(26-30 Railcard)'',
       ''('' @ backslash @ ''d{2}-'' @ backslash @ ''d{2}'' @ backslash @ ''s+Railcard)'',
       ''([A-Za-z'' @ backslash @ ''s'' @ backslash @ ''-]+Railcard)''],
     region = Some (6/100, 83/100, 4/10, 85/100)\<rparr>,
    \<lparr>name = ''valid_until'',
     patterns =
      [''('' @ backslash @ ''d{2}'' @ backslash @ ''s+[A-Za-z]{3}'' @ backslash @ ''s+'' @ backslash @ ''d{4})'',
       ''07'' @ backslash @ ''s+Mar'' @ backslash @ ''s+2025''],
     region = Some (55/100, 83/100, 94/100, 85/100)\<rparr>,
    \<lparr>name = ''reference'',
     patterns =
      [''(TTF[A-Z0-9]+)'',
       ''([A-Z0-9]{9,12})''],
     region = Some (2/10, 51/100, 8/10, 53/100)\<rparr>,
    \<lparr>name = ''digital_indicators'',
     patterns =
      [''(Add to Google Wallet)'',
       ''(Show Railcard)''],
     region = Some (2/10, 25/100, 8/10, 35/100)\<rparr>
   ]"

text \<open>The tables of \<^verbatim>\<open>TicketScanner._get_default_configurations\<close>.\<close>

definition generic_configuration :: "ticket_field list" where
  "generic_configuration =
   [
    \<lparr>name = ''origin_station'',
     patterns =
      [''(?:From|Origin)[:'' @ backslash @ ''s]+(.+?)(?:'' @ backslash @ ''s+to|'' @ backslash @ ''s*$|[,'' @ backslash @ ''.])'',
       ''ORIGIN[:'' @ backslash @ ''s]+(.+?)(?:'' @ backslash @ ''s+to|'' @ backslash @ ''s*$|[,'' @ backslash @ ''.])''],
     region = Some (5/100, 2/10, 45/100, 4/10)\<rparr>,
    \<lparr>name = ''destination_station'',
     patterns =
      [''(?:To|Destination)[:'' @ backslash @ ''s]+(.+?)(?:'' @ backslash @ ''s*$|[,'' @ backslash @ ''.])'',
       ''DESTINATION[:'' @ backslash @ ''s]+(.+?)(?:'' @ backslash @ ''s*$|[,'' @ backslash @ ''.])''],
     region = Some (55/100, 2/10, 95/100, 4/10)\<rparr>,
    \<lparr>name = ''date'',
     patterns =
      [''(?:Date|Valid)[:'' @ backslash @ ''s]+([0-9]{1,2}['' @ backslash @ ''/'' @ backslash @ ''.'' @ backslash @ ''-][0-9]{1,2}['' @ backslash @ ''/'' @ backslash @ ''.'' @ backslash @ ''-][0-9]{2,4})'',
       ''(?:Date|Valid)[:'' @ backslash @ ''s]+([0-9]{1,2}(?:st|nd|rd|th)?'' @ backslash @ ''s+[A-Za-z]+'' @ backslash @ ''s+[0-9]{2,4})''],
     region = Some (1/10, 4/10, 9/10, 6/10)\<rparr>,
    \<lparr>name = ''ticket_type'',
     patterns =
      [''(?:Type|Class)[:'' @ backslash @ ''s]+(.+?)(?:'' @ backslash @ ''s*$|[,'' @ backslash @ ''.])'',
       ''(STANDARD|FIRST|1ST|ANYTIME|OFF-PEAK|SUPER OFF-PEAK)(?:'' @ backslash @ ''s+CLASS)?''],
     region = Some (1/10, 5/10, 9/10, 7/10)\<rparr>,
    \<lparr>name = ''price'',
     patterns =
      [''(?:Price|Cost|Fare)[:'' @ backslash @ ''s]*'' @ pound @ ''?([0-9]+'' @ backslash @ ''.[0-9]{2})'',
       pound @ ''([0-9]+'' @ backslash @ ''.[0-9]{2})''],
     region = Some (7/10, 7/10, 95/100, 9/10)\<rparr>,
    \<lparr>name = ''ticket_reference'',
     patterns =
      [''(?:Reference|Ref)[:'' @ backslash @ ''s]*([A-Z0-9-]+)'',
       ''([A-Z0-9]{2,}-[A-Z0-9]{2,}-[A-Z0-9]{2,})''],
     region = Some (4/10, 8/10, 9/10, 95/100)\<rparr>
   ]"

definition gwr_configuration :: "ticket_field list" where
  "gwr_configuration =
   [
    \<lparr>name = ''origin_station'',
     patterns =
      [''FROM'' @ backslash @ ''s+(.+?)(?:'' @ backslash @ ''s+TO|'' @ backslash @ ''s*$|[,'' @ backslash @ ''.])'',
       ''(?:From|Origin)[:'' @ backslash @ ''s]+(.+?)(?:'' @ backslash @ ''s+to|'' @ backslash @ ''s*$|[,'' @ backslash @ ''.])''],
     region = Some (5/100, 2/10, 45/100, 3/10)\<rparr>,
    \<lparr>name = ''destination_station'',
     patterns =
      [''TO'' @ backslash @ ''s+(.+?)(?:'' @ backslash @ ''s*$|[,'' @ backslash @ ''.])'',
       ''(?:To|Destination)[:'' @ backslash @ ''s]+(.+?)(?:'' @ backslash @ ''s*$|[,'' @ backslash @ ''.])''],
     region = Some (55/100, 2/10, 95/100, 3/10)\<rparr>,
    \<lparr>name = ''date'',
     patterns =
      [''VALID'' @ backslash @ ''s+(?:ON|FOR)'' @ backslash @ ''s+(.+?)(?:'' @ backslash @ ''s*$|[,'' @ backslash @ ''.])'',
       ''(?:Date|Valid)[:'' @ backslash @ ''s]+(.+?)(?:'' @ backslash @ ''s*$|[,'' @ backslash @ ''.])''],
     region = Some (1/10, 3/10, 9/10, 4/10)\<rparr>,
    \<lparr>name = ''ticket_type'',
     patterns =
      [''(STANDARD|FIRST)'' @ backslash @ ''s+CLASS'',
       ''(ANYTIME|OFF-PEAK|SUPER OFF-PEAK)''],
     region = Some (1/10, 4/10, 9/10, 5/10)\<rparr>,
    \<lparr>name = ''price'',
     patterns =
      [pound @ ''([0-9]+'' @ backslash @ ''.[0-9]{2})'',
       ''GBP'' @ backslash @ ''s+([0-9]+'' @ backslash @ ''.[0-9]{2})''],
     region = Some (7/10, 7/10, 95/100, 8/10)\<rparr>,
    \<lparr>name = ''ticket_reference'',
     patterns =
      [''TICKET'' @ backslash @ ''s+NUMBER'' @ backslash @ ''s+([A-Z0-9-]+)'',
       ''REF[:'' @ backslash @ ''s]+([A-Z0-9-]+)''],
     region = Some (4/10, 8/10, 9/10, 95/100)\<rparr>
   ]"

definition get_default_configurations :: "(string \<times> ticket_field list) list" where
  "get_default_configurations =
   [(''generic'', generic_configuration),
    (''gwr'', gwr_configuration),
    (''trainline_app'', get_trainline_configuration),
    (''generic_digital'', get_trainline_configuration)]"

section \<open>The scanner\<close>

text \<open>The fields of a \<^verbatim>\<open>TicketScanner\<close> that the scan reads or writes.\<close>

record scanner =
  configurations :: "(string \<times> ticket_field list) list"
  ticket_type :: "string option"
  extracted_data :: "(string \<times> py_value) list"
  confidence_scores :: "(string \<times> real) list"
  debug_roi :: bool

text \<open>\<^verbatim>\<open>TicketScanner.__init__\<close>: \<^verbatim>\<open>configurations or self._get_default_configurations()\<close>
  takes the defaults for \<^verbatim>\<open>None\<close> and for an empty dictionary.\<close>

definition ticket_scanner :: "(string \<times> ticket_field list) list option \<Rightarrow> bool \<Rightarrow> scanner" where
  "ticket_scanner configs dbg =
     \<lparr>configurations =
        (case configs of
           None \<Rightarrow> get_default_configurations
         | Some c \<Rightarrow> if c = [] then get_default_configurations else c),
      ticket_type = None,
      extracted_data = [],
      confidence_scores = [],
      debug_roi = dbg\<rparr>"

text \<open>\<^verbatim>\<open>any(indicator in text.lower() for indicator in indicators)\<close>, the test of the
  classifier and of the configuration selector for known phrases.\<close>

definition matches_any :: "string list \<Rightarrow> string \<Rightarrow> bool" where
  "matches_any indicators text = list_ex (\<lambda>indicator. py_in indicator (py_lower text)) indicators"

subsection \<open>Type classifier\<close>

record features =
  orange_bar :: real
  texture :: real
  perspective :: real
  shadow :: real
  digital_elements :: real

definition wallet_phrases :: "string list" where
  "wallet_phrases = [''add to wallet'', ''google wallet'', ''show railcard'', ''eticket'']"

definition paper_score :: "features \<Rightarrow> real" where
  "paper_score f =
     orange_bar f * 1.5 + texture f * 1.0 + perspective f * 0.8 + shadow f * 0.7
       - digital_elements f * 2.0"

text \<open>\<^verbatim>\<open>TicketScanner._determine_ticket_type\<close>. The result is the list of debug files written
  (their names after the image's stem) and either the exception raised or the label.
  Feature values are the integers and floats of the source, read as reals; on the
  values they can take, the float score and the real score lie on the same side of \<open>0.5\<close>.

  The second part of the function, from the shadow feature to the return.\<close>

definition classify_rest ::
  "'img cv_env \<Rightarrow> bool \<Rightarrow> 'img \<Rightarrow> classifier_inputs \<Rightarrow> features \<Rightarrow> string list
     \<Rightarrow> string list \<times> (py_error + string)" where
  "classify_rest env debug img m f0 log0 =
     (let f1 = f0\<lparr>shadow :=
                 (if is_bgr m then (if illumination_var m > 15 then 1 else 0) else 0)\<rparr>;
          log1 = log0 @ (if debug then [''_threshold.jpg''] else []);
          f2 = (if has_qr m \<noteq> [] then f1\<lparr>digital_elements := digital_elements f1 + 1\<rparr> else f1);
          text = image_to_string env img;
          log2 = log1 @ (if debug then [''_ocr_text.txt''] else []);
          f3 = (if matches_any wallet_phrases text
                then f2\<lparr>digital_elements := digital_elements f2 + 2.0\<rparr> else f2);
          log3 = log2 @ (if debug then [''_features.json''] else [])
      in (log3, Inr (if paper_score f3 > 0.5 then ''paper'' else ''digital'')))"

text \<open>The first part: the orange bar, the texture and the perspective feature. On an
  image of fewer than ten rows the top region is empty and the first \<^verbatim>\<open>cv2.cvtColor\<close> on
  it raises, before any file is written. (When it returns, the mask is not empty; the
  division is kept as Python has it.) When no line is found and debugging is on, the
  loop over \<^verbatim>\<open>lines\<close> in the \<^verbatim>\<open>else\<close> branch iterates \<^verbatim>\<open>None\<close>.\<close>

definition determine_ticket_type ::
  "'img cv_env \<Rightarrow> bool \<Rightarrow> 'img \<Rightarrow> string list \<times> (py_error + string)" where
  "determine_ticket_type env debug img =
     (let m = measurements env img;
          f0 = \<lparr>orange_bar = 0, texture = 0, perspective = 0, shadow = 0, digital_elements = 0\<rparr>
      in case orange_mask m of
           Inl msg \<Rightarrow> ([], Inl (Cv2Error msg))
         | Inr (orange_pixels, mask_size) \<Rightarrow>
             (let log1 = (if debug then [''_top_region.jpg'', ''_orange_mask.jpg''] else [])
              in if mask_size = 0 then (log1, Inl (ZeroDivisionError ''division by zero''))
                 else
                   let f1 = f0\<lparr>orange_bar :=
                               (if float_div env (real orange_pixels) (real mask_size) > float_0_2
                                then 1 else 0)\<rparr>;
                       log2 = log1 @ (if debug then [''_texture.jpg''] else []);
                       f2 = f1\<lparr>texture := (if texture_measure m > 10 then 1 else 0)\<rparr>;
                       log3 = log2 @ (if debug then [''_edges.jpg''] else [])
                   in case hough_lines m of
                        Some n \<Rightarrow>
                          let angle_variation = (if n \<noteq> 0 then angles_std m else 0);
                              f3 = f2\<lparr>perspective :=
                                      (if angle_variation > float_0_05 then 1 else 0)\<rparr>
                          in classify_rest env debug img m f3 log3
                      | None \<Rightarrow>
                          let f3 = f2\<lparr>perspective := 0\<rparr>
                          in if debug
                             then (log3, Inl (TypeError (quote @ ''NoneType'' @ quote
                                                          @ '' object is not iterable'')))
                             else classify_rest env debug img m f3 log3))"

subsection \<open>Configuration selector\<close>

text \<open>The dictionary literal of \<^verbatim>\<open>_select_configuration\<close>, in its order.\<close>

definition config_indicators :: "(string \<times> string list) list" where
  "config_indicators =
   [(''gwr'', [''great western'', ''gwr'']),
    (''lner'', [''lner'', ''london north eastern'']),
    (''tfl'', [''transport for london'', ''tfl'', ''oyster'']),
    (''avanti'', [''avanti'', ''west coast'']),
    (''trainline_app'', [''trainline'', ''mobile ticket'', ''qr code'']),
    (''generic_digital'', [])]"

text \<open>The loop over the table, which returns the name of the first configuration with a
  matching indicator; \<open>None\<close> when the loop ends without returning.\<close>

fun select_from :: "(string \<times> string list) list \<Rightarrow> string \<Rightarrow> string option" where
  "select_from [] text = None"
| "select_from ((config_name, indicators) # rest) text =
     (if matches_any indicators text then Some config_name else select_from rest text)"

definition select_by_text :: "string \<Rightarrow> string" where
  "select_by_text text =
     (case select_from config_indicators text of
        Some config_name \<Rightarrow> config_name
      | None \<Rightarrow> ''generic_digital'')"

text \<open>\<^verbatim>\<open>TicketScanner._select_configuration\<close> (its debug dump only writes a file).\<close>

definition select_configuration :: "'img cv_env \<Rightarrow> 'img \<Rightarrow> string" where
  "select_configuration env img = select_by_text (image_to_string env img)"

subsection \<open>Field extractor\<close>

text \<open>The pixel bounds \<open>(roi_x1, roi_y1, roi_x2, roi_y2)\<close> of a region.\<close>

definition roi_bounds ::
  "'img cv_env \<Rightarrow> real \<times> real \<times> real \<times> real \<Rightarrow> nat \<Rightarrow> nat \<Rightarrow> int \<times> int \<times> int \<times> int" where
  "roi_bounds env r width height =
     (case r of (x1, y1, x2, y2) \<Rightarrow>
        (py_int (float_mul env x1 (real width)),
         py_int (float_mul env y1 (real height)),
         py_int (float_mul env x2 (real width)),
         py_int (float_mul env y2 (real height))))"

text \<open>A slice bound on an axis of length \<open>n\<close>: a negative bound counts from the end, and
  every bound is clamped to the axis. The slice \<^verbatim>\<open>[a:b]\<close> has \<open>max 0 (stop - start)\<close>
  elements (the subtraction on \<open>nat\<close> stops at 0).\<close>

definition slice_index :: "nat \<Rightarrow> int \<Rightarrow> nat" where
  "slice_index n i = (if i < 0 then nat (max 0 (int n + i)) else min n (nat i))"

definition slice_len :: "nat \<Rightarrow> int \<Rightarrow> int \<Rightarrow> nat" where
  "slice_len n a b = slice_index n b - slice_index n a"

text \<open>\<^verbatim>\<open>roi.size\<close> for \<^verbatim>\<open>roi = image[roi_y1:roi_y2, roi_x1:roi_x2]\<close>; the working image has
  three channels.\<close>

definition roi_size :: "nat \<Rightarrow> nat \<Rightarrow> int \<times> int \<times> int \<times> int \<Rightarrow> nat" where
  "roi_size height width b =
     (case b of (roi_x1, roi_y1, roi_x2, roi_y2) \<Rightarrow>
        slice_len height roi_y1 roi_y2 * slice_len width roi_x1 roi_x2 * 3)"

text \<open>The text a field is matched against; \<open>None\<close> when the region is empty and the loop
  continues with the next field.\<close>

definition field_text :: "'img cv_env \<Rightarrow> 'img \<Rightarrow> ticket_field \<Rightarrow> string option" where
  "field_text env img field =
     (case region field of
        Some r \<Rightarrow>
          (case shape env img of (height, width) \<Rightarrow>
             (case roi_bounds env r width height of (roi_x1, roi_y1, roi_x2, roi_y2) \<Rightarrow>
                if roi_size height width (roi_x1, roi_y1, roi_x2, roi_y2) = 0 then None
                else Some (image_to_string env (slice env img roi_y1 roi_y2 roi_x1 roi_x2))))
      | None \<Rightarrow> Some (image_to_string env img))"

text \<open>The loop over the patterns with \<^verbatim>\<open>re.search\<close>; the state is \<open>details\<close> and
  \<open>self.confidence_scores\<close>.\<close>

type_synonym extraction = "(string \<times> py_value) list \<times> (string \<times> real) list"

fun match_patterns ::
  "'img cv_env \<Rightarrow> string \<Rightarrow> string \<Rightarrow> string list \<Rightarrow> extraction \<Rightarrow> extraction" where
  "match_patterns env field_name text [] (details, conf) = (details, conf)"
| "match_patterns env field_name text (pattern # rest) (details, conf) =
     (case re_search env {IGNORECASE, MULTILINE} pattern text of
        Some group0 \<Rightarrow>
          (AList.update field_name (PyStr (py_strip group0)) details,
           AList.update field_name 1.0 conf)
      | None \<Rightarrow> match_patterns env field_name text rest (details, conf))"

text \<open>The cleaning of a pattern for the fuzzy fallback: the first \<^verbatim>\<open>re.sub\<close> deletes the
  characters \<^verbatim>\<open>()[]{}.+*?|^$\<close>, the second deletes the token \<^verbatim>\<open>\d+\<close>, then \<^verbatim>\<open>\s+\<close> is
  replaced by a space and the result is stripped.\<close>

definition regex_special :: string where
  "regex_special = ''()[]{}.+*?|^$''"

definition clean_pattern :: "string \<Rightarrow> string" where
  "clean_pattern pattern =
     (let c1 = filter (\<lambda>ch. ch \<notin> set regex_special) pattern;
          c2 = py_replace (backslash @ ''d+'') [] c1
      in py_strip (py_replace (backslash @ ''s+'') '' '' c2))"

text \<open>The cleaning in the words of the specification: the digit-placeholder token and
  the regular expression metacharacters are stripped from the pattern; the result is
  trimmed.\<close>

definition spec_clean :: "string \<Rightarrow> string" where
  "spec_clean pattern =
     py_strip (filter (\<lambda>ch. ch \<notin> set regex_special)
                 (py_replace (backslash @ ''d+'') [] pattern))"

text \<open>\<^verbatim>\<open>text[pos:pos+30].split('\n')[0].strip()\<close>.\<close>

definition possible_value :: "string \<Rightarrow> nat \<Rightarrow> string" where
  "possible_value text pos =
     py_strip (takeWhile (\<lambda>ch. ch \<noteq> newline) (take 30 (drop pos text)))"

fun fuzzy_patterns :: "string \<Rightarrow> string \<Rightarrow> string list \<Rightarrow> extraction \<Rightarrow> extraction" where
  "fuzzy_patterns field_name text [] (details, conf) = (details, conf)"
| "fuzzy_patterns field_name text (pattern # rest) (details, conf) =
     (let cp = clean_pattern pattern in
      if cp \<noteq> [] \<and> py_in cp text then
        (let pos = nat (py_find cp text) + length cp in
         if pos < length text
         then (AList.update field_name (PyStr (possible_value text pos)) details,
               AList.update field_name 0.6 conf)
         else fuzzy_patterns field_name text rest (details, conf))
      else fuzzy_patterns field_name text rest (details, conf))"

text \<open>The body of the loop over the fields, for a field whose text is known.\<close>

definition match_field :: "'img cv_env \<Rightarrow> ticket_field \<Rightarrow> string \<Rightarrow> extraction \<Rightarrow> extraction" where
  "match_field env field text st =
     (let st1 = match_patterns env (name field) text (patterns field) st in
      if \<not> has_key (fst st1) (name field) \<and> text \<noteq> []
      then fuzzy_patterns (name field) text (patterns field) st1
      else st1)"

definition process_field :: "'img cv_env \<Rightarrow> 'img \<Rightarrow> ticket_field \<Rightarrow> extraction \<Rightarrow> extraction" where
  "process_field env img field st =
     (case field_text env img field of
        None \<Rightarrow> st
      | Some text \<Rightarrow> match_field env field text st)"

fun extract_fields :: "'img cv_env \<Rightarrow> 'img \<Rightarrow> ticket_field list \<Rightarrow> extraction \<Rightarrow> extraction" where
  "extract_fields env img [] st = st"
| "extract_fields env img (field # rest) st =
     extract_fields env img rest (process_field env img field st)"

text \<open>\<^verbatim>\<open>TicketScanner._extract_ticket_details\<close>: returns \<open>details\<close> and the scanner with its
  confidence scores updated. (The debug dumps only draw and write files.)\<close>

definition extract_ticket_details ::
  "'img cv_env \<Rightarrow> scanner \<Rightarrow> 'img \<Rightarrow> string
     \<Rightarrow> py_error + ((string \<times> py_value) list \<times> scanner)" where
  "extract_ticket_details env sc img config_name0 =
     (let config_name = (if \<not> has_key (configurations sc) config_name0 then ''generic''
                         else config_name0)
      in case map_of (configurations sc) config_name of
           None \<Rightarrow> Inl (KeyError config_name)
         | Some config \<Rightarrow>
             (case extract_fields env img config ([], confidence_scores sc) of
                (details, conf) \<Rightarrow> Inr (details, sc\<lparr>confidence_scores := conf\<rparr>)))"

subsection \<open>Reference synthesis\<close>

text \<open>One token of the reference: the code if the dictionary has one, else the first
  three characters of the station name in upper case, else nothing.\<close>

definition ref_token ::
  "'img cv_env \<Rightarrow> (string \<times> py_value) list \<Rightarrow> string \<Rightarrow> string
     \<Rightarrow> py_error + py_value list" where
  "ref_token env d code_key station_key =
     (case map_of d code_key of
        Some v \<Rightarrow> Inr [v]
      | None \<Rightarrow>
          (case map_of d station_key of
             Some (PyStr station) \<Rightarrow> Inr [PyStr (str_upper env (take 3 station))]
           | Some (PyBool b) \<Rightarrow> Inl (TypeError (quote @ ''bool'' @ quote @ '' object is not subscriptable''))
           | None \<Rightarrow> Inr []))"

text \<open>\<^verbatim>\<open>'-'.join\<close> accepts strings only.\<close>

fun str_items :: "nat \<Rightarrow> py_value list \<Rightarrow> py_error + string list" where
  "str_items i [] = Inr []"
| "str_items i (PyStr s # vs) =
     (case str_items (Suc i) vs of Inl e \<Rightarrow> Inl e | Inr ss \<Rightarrow> Inr (s # ss))"
| "str_items i (PyBool b # vs) =
     Inl (TypeError (''sequence item '' @ str_nat i @ '': expected str instance, bool found''))"

text \<open>\<^verbatim>\<open>TicketScanner._generate_ticket_reference\<close>.\<close>

definition generate_ticket_reference :: "'img cv_env \<Rightarrow> scanner \<Rightarrow> py_error + scanner" where
  "generate_ticket_reference env sc =
     (case ref_token env (extracted_data sc) ''origin_code'' ''origin_station'' of
        Inl e \<Rightarrow> Inl e
      | Inr origin \<Rightarrow>
          (case ref_token env (extracted_data sc) ''destination_code'' ''destination_station'' of
             Inl e \<Rightarrow> Inl e
           | Inr destination \<Rightarrow>
               (case str_items 0 (origin @ destination
                                  @ [PyStr (last6 (py_str (py_int (time_time env))))]) of
                  Inl e \<Rightarrow> Inl e
                | Inr ref_parts \<Rightarrow>
                    Inr (sc\<lparr>extracted_data :=
                               AList.update ''is_reference_generated'' (PyBool True)
                                 (AList.update ''ticket_reference'' (PyStr (join_dash ref_parts))
                                    (extracted_data sc)),
                             confidence_scores :=
                               AList.update ''ticket_reference'' 0.5 (confidence_scores sc)\<rparr>))))"

text \<open>The tokens of the reference in the words of the specification: the explicit code
  field if there is one, else the first three characters of the station name in upper
  case, else nothing.\<close>

definition spec_token ::
  "(string \<Rightarrow> string) \<Rightarrow> (string \<times> py_value) list \<Rightarrow> string \<Rightarrow> string \<Rightarrow> string list" where
  "spec_token upper d code_key station_key =
     (case map_of d code_key of
        Some (PyStr code) \<Rightarrow> [code]
      | _ \<Rightarrow>
          (case map_of d station_key of
             Some (PyStr station) \<Rightarrow> [upper (take 3 station)]
           | _ \<Rightarrow> []))"

subsection \<open>The scan\<close>

record scan_result =
  result_ticket_type :: string
  configuration_used :: string
  data :: "(string \<times> py_value) list"
  confidence :: "(string \<times> real) list"

text \<open>The image the selector and the extractor work on: the crop of the preprocessed
  image, or the preprocessed image when there is no crop.\<close>

definition working_image :: "'img cv_env \<Rightarrow> string \<Rightarrow> 'img \<Rightarrow> 'img" where
  "working_image env tt original_image =
     (let preprocessed = preprocess_image env tt original_image in
      case crop_ticket env tt preprocessed of
        Some cropped \<Rightarrow> cropped
      | None \<Rightarrow> preprocessed)"

text \<open>\<^verbatim>\<open>TicketScanner.scan\<close>: the returned dictionary and the scanner after the scan, or the
  exception raised.\<close>

definition scan :: "'img cv_env \<Rightarrow> scanner \<Rightarrow> string \<Rightarrow> py_error + (scan_result \<times> scanner)" where
  "scan env sc0 image_path =
     (case imread env image_path of
        None \<Rightarrow> Inl (ValueError (''Could not load image from '' @ image_path))
      | Some original_image \<Rightarrow>
          (case snd (determine_ticket_type env (debug_roi sc0) original_image) of
             Inl e \<Rightarrow> Inl e
           | Inr tt \<Rightarrow>
               (let sc1 = sc0\<lparr>ticket_type := Some tt\<rparr>;
                    working = working_image env tt original_image;
                    config_name = select_configuration env working
                in case extract_ticket_details env sc1 working config_name of
                     Inl e \<Rightarrow> Inl e
                   | Inr (details, sc2) \<Rightarrow>
                       (let sc3 = sc2\<lparr>extracted_data := details\<rparr> in
                        case (if \<not> has_key (extracted_data sc3) ''ticket_reference''
                              then generate_ticket_reference env sc3 else Inr sc3) of
                          Inl e \<Rightarrow> Inl e
                        | Inr sc4 \<Rightarrow>
                            Inr (\<lparr>result_ticket_type = tt,
                                  configuration_used = config_name,
                                  data = extracted_data sc4,
                                  confidence = confidence_scores sc4\<rparr>, sc4)))))"

subsection \<open>The command line entry\<close>

datatype json = JString string | JNumber real | JBool bool | JObject "(string \<times> json) list"

fun value_json :: "py_value \<Rightarrow> json" where
  "value_json (PyStr s) = JString s"
| "value_json (PyBool b) = JBool b"

definition result_json :: "scan_result \<Rightarrow> json" where
  "result_json r =
     JObject [(''ticket_type'', JString (result_ticket_type r)),
              (''configuration_used'', JString (configuration_used r)),
              (''data'', JObject (map (\<lambda>(k, v). (k, value_json v)) (data r))),
              (''confidence'', JObject (map (\<lambda>(k, c). (k, JNumber c)) (confidence r)))]"

text \<open>The \<^verbatim>\<open>__main__\<close> block: the value handed to \<^verbatim>\<open>json.dumps\<close> and printed.\<close>

definition main :: "'img cv_env \<Rightarrow> bool \<Rightarrow> string \<Rightarrow> json" where
  "main env debug image_path =
     (case scan env (ticket_scanner None debug) image_path of
        Inr (results, sc) \<Rightarrow> result_json results
      | Inl e \<Rightarrow> JObject [(''error'', JString (str_error e))])"

section \<open>A sample environment\<close>

text \<open>An environment for concrete runs. There are two images: the decoded file, of 300
  rows and 400 columns, and any region cut from it. The only file that decodes is
  \<^verbatim>\<open>ticket.jpg\<close>; preprocessing and cropping leave the image alone; the whole image
  reads \<open>whole_text\<close> and every region reads \<open>region_text\<close>; upper-casing is that of the
  ASCII letters (all sample text is ASCII); float multiplication and division are exact;
  the clock stands at 1762200000.5 seconds. The classifier's measurements and the answers
  of the regular expression matcher (per pattern) are given.\<close>

datatype sample_image = Whole | Region

definition sample_upper :: "string \<Rightarrow> string" where
  "sample_upper s =
     map (\<lambda>c. case map_of (zip ascii_lowercase ascii_uppercase) c of Some d \<Rightarrow> d | None \<Rightarrow> c) s"

definition sample_env ::
  "classifier_inputs \<Rightarrow> string \<Rightarrow> string \<Rightarrow> (string \<Rightarrow> string option)
     \<Rightarrow> sample_image cv_env" where
  "sample_env m whole_text region_text re =
     \<lparr>imread = (\<lambda>path. if path = ''ticket.jpg'' then Some Whole else None),
      measurements = (\<lambda>img. m),
      preprocess_image = (\<lambda>tt img. img),
      crop_ticket = (\<lambda>tt img. None),
      shape = (\<lambda>img. (300, 400)),
      slice = (\<lambda>img y1 y2 x1 x2. Region),
      image_to_string = (\<lambda>img. case img of Whole \<Rightarrow> whole_text | Region \<Rightarrow> region_text),
      re_search = (\<lambda>flags pattern t. re pattern),
      str_upper = sample_upper,
      float_mul = (\<lambda>a b. a * b),
      float_div = (\<lambda>a b. a / b),
      time_time = 1762200000.5\<rparr>"

text \<open>A matcher that finds nothing.\<close>

definition no_match :: "string \<Rightarrow> string option" where
  "no_match pattern = None"

text \<open>A matcher for the text \<^verbatim>\<open>From: Leeds to York\<close>.\<close>

definition sample_match :: "string \<Rightarrow> string option" where
  "sample_match pattern =
     (if pattern = ''From: (.+?) to '' then Some ''From: Leeds to ''
      else if pattern = ''(.+)'' then Some ''From: Leeds to York''
      else None)"

text \<open>A matcher for the text \<^verbatim>\<open>Liverpool to GRA\<close>, and one for \<^verbatim>\<open>LVP GRA\<close>.\<close>

definition route_match :: "string \<Rightarrow> string option" where
  "route_match pattern =
     (if pattern = ''^[A-Za-z]+'' then Some ''Liverpool''
      else if pattern = ''[A-Z]{3}$'' then Some ''GRA''
      else None)"

definition codes_match :: "string \<Rightarrow> string option" where
  "codes_match pattern =
     (if pattern = ''^[A-Z]{3}'' then Some ''LVP''
      else if pattern = ''[A-Z]{3}$'' then Some ''GRA''
      else None)"

text \<open>A matcher for the text \<^verbatim>\<open>Reference AB-12-CD\<close> on the patterns of the generic and
  the Great Western configuration: the two reference patterns of the generic
  configuration match, and no other pattern does.\<close>

definition reference_match :: "string \<Rightarrow> string option" where
  "reference_match pattern =
     (if pattern = ''(?:Reference|Ref)[:'' @ backslash @ ''s]*([A-Z0-9-]+)''
      then Some ''Reference AB-12-CD''
      else if pattern = ''([A-Z0-9]{2,}-[A-Z0-9]{2,}-[A-Z0-9]{2,})''
      then Some ''AB-12-CD''
      else None)"

text \<open>Measurements of a flat screenshot: no orange, no texture, no lines, no QR code.\<close>

definition flat_inputs :: classifier_inputs where
  "flat_inputs =
     \<lparr>is_bgr = True, orange_mask = Inr (0, 12000), texture_measure = 2,
      hough_lines = None, angles_std = 0, illumination_var = 5, has_qr = []\<rparr>"

text \<open>Measurements of a photographed paper ticket in which no line is found: half of the
  top region is orange, with texture and uneven light.\<close>

definition paper_inputs :: classifier_inputs where
  "paper_inputs =
     \<lparr>is_bgr = True, orange_mask = Inr (6000, 12000), texture_measure = 20,
      hough_lines = None, angles_std = 0, illumination_var = 30, has_qr = []\<rparr>"

section \<open>Evaluation and dictionary lemmas\<close>

lemmas str_eval = py_lower_def lower_char_def sample_upper_def
  ascii_uppercase_def ascii_lowercase_def

lemmas str_nat_eval = str_nat.simps [of "numeral n" for n] str_nat.simps [of 0]
  str_nat.simps [of "Suc 0"] digit_char_def

lemma keys_update: "keys (AList.update k v d) = insert k (keys d)"
  by (simp add: keys_def dom_update)

lemma has_key_keys: "has_key d k \<longleftrightarrow> k \<in> keys d"
  by (simp add: has_key_def keys_def map_of_eq_None_iff)

lemma has_key_update: "has_key (AList.update k v d) k"
  by (simp add: has_key_def update_conv')

lemma unit_scores_update:
  "unit_scores conf \<Longrightarrow> 0 \<le> v \<Longrightarrow> v \<le> 1 \<Longrightarrow> unit_scores (AList.update k v conf)"
  by (induction conf) (auto simp: unit_scores_def)

section \<open>Configuration selection\<close>

lemma matches_any_Nil: "\<not> matches_any [] text"
  by (simp add: matches_any_def)

lemma matches_any_Cons:
  "matches_any (i # is) text \<longleftrightarrow> py_in i (py_lower text) \<or> matches_any is text"
  by (simp add: matches_any_def)

lemma select_from_first:
  assumes "\<forall>entry \<in> set pre. \<not> matches_any (snd entry) text"
    and "matches_any indicators text"
  shows "select_from (pre @ (config_name, indicators) # post) text = Some config_name"
  using assms by (induction pre) auto

text \<open>
  Claim C4, as the code has it. The selector returns the name of the first entry of the
  table one of whose indicators occurs in the lowercased text. An entry with an empty
  indicator list never matches (\<^verbatim>\<open>any\<close> of nothing is false): the default
  \<^verbatim>\<open>generic_digital\<close> comes from the \<^verbatim>\<open>return\<close> after the loop. Text that contains
  \<^verbatim>\<open>transport for london\<close> in any case selects \<^verbatim>\<open>tfl\<close> provided none of the
  indicators of the two earlier entries (\<^verbatim>\<open>great western\<close>, \<^verbatim>\<open>gwr\<close>, \<^verbatim>\<open>lner\<close>,
  \<^verbatim>\<open>london north eastern\<close>) occurs in it, and text with none of the indicators of the
  table selects \<^verbatim>\<open>generic_digital\<close>.
\<close>

theorem select_configuration_first_match:
  "select_from ((config_name, []) # rest) ocr_text = select_from rest ocr_text
   \<and> ((\<forall>entry \<in> set pre. \<not> matches_any (snd entry) ocr_text) \<longrightarrow> matches_any indicators ocr_text
        \<longrightarrow> select_from (pre @ (config_name, indicators) # post) ocr_text = Some config_name)
   \<and> (py_in ''transport for london'' (py_lower (image_to_string env img))
        \<and> \<not> matches_any [''great western'', ''gwr'', ''lner'', ''london north eastern'']
              (image_to_string env img)
        \<longrightarrow> select_configuration env img = ''tfl'')
   \<and> (\<not> matches_any (concat (map snd config_indicators)) (image_to_string env img)
        \<longrightarrow> select_configuration env img = ''generic_digital'')"
proof (intro conjI impI)
  show "select_from ((config_name, []) # rest) ocr_text = select_from rest ocr_text"
    by (simp add: matches_any_Nil)
next
  assume "\<forall>entry \<in> set pre. \<not> matches_any (snd entry) ocr_text" "matches_any indicators ocr_text"
  then show "select_from (pre @ (config_name, indicators) # post) ocr_text = Some config_name"
    by (rule select_from_first)
next
  assume "py_in ''transport for london'' (py_lower (image_to_string env img))
        \<and> \<not> matches_any [''great western'', ''gwr'', ''lner'', ''london north eastern'']
              (image_to_string env img)"
  then show "select_configuration env img = ''tfl''"
    by (simp add: select_configuration_def select_by_text_def config_indicators_def
        matches_any_Cons matches_any_Nil)
next
  assume "\<not> matches_any (concat (map snd config_indicators)) (image_to_string env img)"
  then show "select_configuration env img = ''generic_digital''"
    by (simp add: select_configuration_def select_by_text_def config_indicators_def
        matches_any_Cons matches_any_Nil)
qed

theorem select_configuration_first_match_witness:
  "select_from [(''gwr'', [''great western'', ''gwr'']), (''lner'', [''lner''])] ''LNER Azuma''
     = Some ''lner''
   \<and> select_configuration (sample_env flat_inputs ''Transport for London Oyster'' [] no_match)
        Whole = ''tfl''
   \<and> select_configuration (sample_env flat_inputs ''Northern Rail'' [] no_match)
        Whole = ''generic_digital''"
proof -
  have a: "select_from ([(''gwr'', [''great western'', ''gwr''])] @ (''lner'', [''lner'']) # [])
             ''LNER Azuma'' = Some ''lner''"
    using select_configuration_first_match
      [where pre = "[(''gwr'', [''great western'', ''gwr''])]" and ocr_text = "''LNER Azuma''"
         and indicators = "[''lner'']" and config_name = "''lner''" and post = "[]",
         THEN conjunct2, THEN conjunct1]
    by (simp add: matches_any_def str_eval)
  have b: "select_configuration (sample_env flat_inputs ''Transport for London Oyster'' [] no_match)
             Whole = ''tfl''"
    using select_configuration_first_match
      [where env = "sample_env flat_inputs ''Transport for London Oyster'' [] no_match"
         and img = Whole, THEN conjunct2, THEN conjunct2, THEN conjunct1]
    by (simp add: sample_env_def matches_any_def str_eval)
  have c: "select_configuration (sample_env flat_inputs ''Northern Rail'' [] no_match)
             Whole = ''generic_digital''"
    using select_configuration_first_match
      [where env = "sample_env flat_inputs ''Northern Rail'' [] no_match"
         and img = Whole, THEN conjunct2, THEN conjunct2, THEN conjunct2]
    by (simp add: sample_env_def matches_any_def config_indicators_def str_eval)
  from a b c show ?thesis by simp
qed

text \<open>The claim as stated fails: text that names Transport for London after a Great Western
  indicator selects \<^verbatim>\<open>gwr\<close>, and an entry with an empty indicator list does not match.\<close>

theorem select_configuration_counterexample:
  "py_in ''transport for london'' (py_lower ''GWR Transport for London'')
   \<and> select_by_text ''GWR Transport for London'' \<noteq> ''tfl''
   \<and> select_from [(''generic_digital'', [])] ''Northern Rail'' = None"
  by (simp add: select_by_text_def config_indicators_def matches_any_def str_eval)

section \<open>Pixel bounds of a region\<close>

lemma py_int_nonneg: "0 \<le> x \<Longrightarrow> 0 \<le> py_int x"
  by (simp add: py_int_def)

lemma py_int_mono: "0 \<le> x \<Longrightarrow> x \<le> y \<Longrightarrow> py_int x \<le> py_int y"
  by (simp add: py_int_def floor_mono)

lemma py_int_of_nat: "py_int (real n) = int n"
  by (simp add: py_int_def)

lemma slice_len_inside:
  "0 \<le> a \<Longrightarrow> a \<le> b \<Longrightarrow> b \<le> int n \<Longrightarrow> slice_len n a b = nat (b - a)"
  by (auto simp: slice_len_def slice_index_def)

text \<open>
  Claim C2, as the code has it. For ratios with \<open>0 \<le> x1 < x2 \<le> 1\<close> and
  \<open>0 \<le> y1 < y2 \<le> 1\<close> and an image of positive width and height, the truncated products
  are non-negative, ordered (\<open>roi_x1 \<le> roi_x2\<close>, \<open>roi_y1 \<le> roi_y2\<close>) and within the image;
  the crop is non-empty exactly when both orders are strict. Truncation can make the two
  bounds of an axis equal; the crop is then empty and the extractor skips the field: it
  leaves the extracted data and the confidence scores as they are. The float product is
  only required to be monotone in the ratio and exact for the ratios 0 and 1, which
  rounding to the nearest float is.
\<close>

theorem roi_bounds_within_image:
  assumes ratios: "0 \<le> x1" "x1 < x2" "x2 \<le> 1" "0 \<le> y1" "y1 < y2" "y2 \<le> 1"
    and size: "0 < width" "0 < height"
    and mono: "\<And>a b c. a \<le> b \<Longrightarrow> 0 \<le> c \<Longrightarrow> float_mul env a c \<le> float_mul env b c"
    and zero: "\<And>c. float_mul env 0 c = 0"
    and one: "\<And>c. float_mul env 1 c = c"
    and bounds: "roi_bounds env (x1, y1, x2, y2) width height = (roi_x1, roi_y1, roi_x2, roi_y2)"
  shows "0 \<le> roi_x1 \<and> roi_x1 \<le> roi_x2 \<and> roi_x2 \<le> int width
       \<and> 0 \<le> roi_y1 \<and> roi_y1 \<le> roi_y2 \<and> roi_y2 \<le> int height
       \<and> (roi_size height width (roi_x1, roi_y1, roi_x2, roi_y2) \<noteq> 0
            \<longleftrightarrow> roi_x1 < roi_x2 \<and> roi_y1 < roi_y2)
       \<and> (shape env img = (height, width) \<and> region field = Some (x1, y1, x2, y2)
            \<and> roi_size height width (roi_x1, roi_y1, roi_x2, roi_y2) = 0
          \<longrightarrow> process_field env img field st = st)"
proof -
  have axis: "0 \<le> py_int (float_mul env a (real n))
      \<and> py_int (float_mul env a (real n)) \<le> py_int (float_mul env b (real n))
      \<and> py_int (float_mul env b (real n)) \<le> int n"
    if "0 \<le> a" "a < b" "b \<le> 1" for a b :: real and n :: nat
  proof -
    have lo: "0 \<le> float_mul env a (real n)"
      using mono [of 0 a "real n"] that zero by simp
    have mid: "float_mul env a (real n) \<le> float_mul env b (real n)"
      using mono [of a b "real n"] that by simp
    have hi: "float_mul env b (real n) \<le> real n"
      using mono [of b 1 "real n"] that one by simp
    have "py_int (float_mul env b (real n)) \<le> py_int (real n)"
      using lo mid hi by (intro py_int_mono) auto
    then show ?thesis
      using lo mid by (simp add: py_int_nonneg py_int_mono py_int_of_nat)
  qed
  have x: "roi_x1 = py_int (float_mul env x1 (real width))"
          "roi_x2 = py_int (float_mul env x2 (real width))"
    and y: "roi_y1 = py_int (float_mul env y1 (real height))"
           "roi_y2 = py_int (float_mul env y2 (real height))"
    using bounds by (simp_all add: roi_bounds_def)
  have bx: "0 \<le> roi_x1 \<and> roi_x1 \<le> roi_x2 \<and> roi_x2 \<le> int width"
    unfolding x using ratios by (intro axis)
  have by': "0 \<le> roi_y1 \<and> roi_y1 \<le> roi_y2 \<and> roi_y2 \<le> int height"
    unfolding y using ratios by (intro axis)
  have "roi_size height width (roi_x1, roi_y1, roi_x2, roi_y2) \<noteq> 0
          \<longleftrightarrow> roi_x1 < roi_x2 \<and> roi_y1 < roi_y2"
    using bx by' by (auto simp: roi_size_def slice_len_inside)
  moreover have "process_field env img field st = st"
    if "shape env img = (height, width)" "region field = Some (x1, y1, x2, y2)"
      "roi_size height width (roi_x1, roi_y1, roi_x2, roi_y2) = 0"
    using that bounds by (simp add: process_field_def field_text_def)
  ultimately show ?thesis using bx by' by blast
qed

text \<open>The first region of the generic configuration on an image of 300 rows and 400
  columns, and a region of a thousandth of each side, which is empty there.\<close>

theorem roi_bounds_within_image_witness:
  "roi_bounds (sample_env flat_inputs [] [] no_match) (5/100, 2/10, 45/100, 4/10) 400 300
     = (20, 60, 180, 120)
   \<and> roi_size 300 400 (20, 60, 180, 120) \<noteq> 0
   \<and> roi_bounds (sample_env flat_inputs [] [] no_match) (1/1000, 1/1000, 2/1000, 2/1000) 400 300
     = (0, 0, 0, 0)
   \<and> roi_size 300 400 (0, 0, 0, 0) = 0
   \<and> process_field (sample_env flat_inputs ''Date 12 Jan'' ''Date 12 Jan'' no_match) Whole
        \<lparr>name = ''date'', patterns = [''Date''], region = Some (1/1000, 1/1000, 2/1000, 2/1000)\<rparr>
        ([(''price'', PyStr ''9.50'')], [(''price'', 1)])
     = ([(''price'', PyStr ''9.50'')], [(''price'', 1)])"
proof -
  let ?env = "sample_env flat_inputs [] [] no_match"
  let ?env2 = "sample_env flat_inputs ''Date 12 Jan'' ''Date 12 Jan'' no_match"
  have m: "\<And>a b c. a \<le> b \<Longrightarrow> 0 \<le> c \<Longrightarrow> float_mul (sample_env x y z w) a c \<le> float_mul (sample_env x y z w) b c"
    "\<And>c. float_mul (sample_env x y z w) 0 c = 0" "\<And>c. float_mul (sample_env x y z w) 1 c = c"
    for x y z w
    by (simp_all add: sample_env_def mult_right_mono)
  have b: "roi_bounds ?env (5/100, 2/10, 45/100, 4/10) 400 300 = (20, 60, 180, 120)"
    by (simp add: roi_bounds_def sample_env_def py_int_def)
  have b2: "roi_bounds ?env (1/1000, 1/1000, 2/1000, 2/1000) 400 300 = (0, 0, 0, 0)"
    "roi_bounds ?env2 (1/1000, 1/1000, 2/1000, 2/1000) 400 300 = (0, 0, 0, 0)"
    by (simp_all add: roi_bounds_def sample_env_def py_int_def)
  have z: "roi_size 300 400 (0, 0, 0, 0) = 0"
    by (simp add: roi_size_def slice_len_def slice_index_def)
  have s: "shape ?env2 Whole = (300, 400)"
    by (simp add: sample_env_def)
  have n: "roi_size 300 400 (20, 60, 180, 120) \<noteq> 0"
    using roi_bounds_within_image [where env = ?env
        and ?x1.0 = "5/100" and ?y1.0 = "2/10" and ?x2.0 = "45/100" and ?y2.0 = "4/10"
        and width = 400 and height = 300, OF _ _ _ _ _ _ _ _ m b]
    by simp
  have k: "process_field ?env2 Whole
        \<lparr>name = ''date'', patterns = [''Date''], region = Some (1/1000, 1/1000, 2/1000, 2/1000)\<rparr>
        ([(''price'', PyStr ''9.50'')], [(''price'', 1)])
     = ([(''price'', PyStr ''9.50'')], [(''price'', 1)])"
    using roi_bounds_within_image [where env = ?env2
        and ?x1.0 = "1/1000" and ?y1.0 = "1/1000" and ?x2.0 = "2/1000" and ?y2.0 = "2/1000"
        and width = 400 and height = 300 and img = Whole
        and field = "\<lparr>name = ''date'', patterns = [''Date''],
                       region = Some (1/1000, 1/1000, 2/1000, 2/1000)\<rparr>"
        and st = "([(''price'', PyStr ''9.50'')], [(''price'', 1)])",
        OF _ _ _ _ _ _ _ _ m b2(2)] s z
    by simp
  from b n b2(1) z k show ?thesis by simp
qed

text \<open>The claim as stated fails: the ratios \<open>1/8\<close> and \<open>1/4\<close> are valid, and on an image of
  two rows and two columns all four products truncate to 0, so the crop is empty.\<close>

theorem roi_bounds_counterexample:
  "(0::real) \<le> 1/8 \<and> (1/8::real) < 1/4 \<and> (1/4::real) \<le> 1
   \<and> roi_bounds (sample_env flat_inputs [] [] no_match) (1/8, 1/8, 1/4, 1/4) 2 2 = (0, 0, 0, 0)
   \<and> roi_size 2 2 (0, 0, 0, 0) = 0"
  by (simp add: roi_bounds_def sample_env_def py_int_def roi_size_def slice_len_def slice_index_def)

section \<open>Regular expression matching of a field\<close>

lemma match_patterns_first:
  assumes "\<forall>q \<in> set ps. re_search env {IGNORECASE, MULTILINE} q t = None"
    and "re_search env {IGNORECASE, MULTILINE} p t = Some m"
  shows "match_patterns env n t (ps @ p # qs) (details, conf)
         = (AList.update n (PyStr (py_strip m)) details, AList.update n 1 conf)"
  using assms by (induction ps) auto

lemma match_patterns_none:
  assumes "\<forall>q \<in> set ps. re_search env {IGNORECASE, MULTILINE} q t = None"
  shows "match_patterns env n t ps (details, conf) = (details, conf)"
  using assms by (induction ps) auto

text \<open>
  Claim C5. The patterns of a field are searched in order with the flags
  \<^verbatim>\<open>IGNORECASE\<close> and \<^verbatim>\<open>MULTILINE\<close>. When the patterns before \<open>p\<close> find nothing in the
  text of the field and \<open>p\<close> finds \<open>m\<close>, the field's step stores the whole match \<open>m\<close>,
  stripped, with confidence 1.0. The result mentions neither the later patterns \<open>qs\<close>
  nor what the matcher would answer on them: they are not tried, and the fuzzy fallback
  does not run.
\<close>

theorem first_regex_match_wins:
  assumes "field_text env img field = Some ocr_text"
    and "patterns field = ps @ p # qs"
    and "\<forall>q \<in> set ps. re_search env {IGNORECASE, MULTILINE} q ocr_text = None"
    and "re_search env {IGNORECASE, MULTILINE} p ocr_text = Some m"
  shows "process_field env img field (details, conf)
         = (AList.update (name field) (PyStr (py_strip m)) details,
            AList.update (name field) 1.0 conf)"
  using assms
  by (simp add: process_field_def match_field_def match_patterns_first has_key_update Let_def)

theorem first_regex_match_wins_witness:
  "process_field (sample_env flat_inputs ''From: Leeds to York'' [] sample_match) Whole
     \<lparr>name = ''origin_station'',
      patterns = [''ORIGIN (.+)'', ''From: (.+?) to '', ''(.+)''],
      region = None\<rparr> ([], [])
   = ([(''origin_station'', PyStr ''From: Leeds to'')], [(''origin_station'', 1)])"
proof -
  have s: "py_strip ''From: Leeds to '' = ''From: Leeds to''"
    by (simp add: py_strip_def py_isspace_def)
  show ?thesis
    using first_regex_match_wins
      [where env = "sample_env flat_inputs ''From: Leeds to York'' [] sample_match"
         and img = Whole
         and field = "\<lparr>name = ''origin_station'',
                        patterns = [''ORIGIN (.+)'', ''From: (.+?) to '', ''(.+)''],
                        region = None\<rparr>"
         and ocr_text = "''From: Leeds to York''" and ps = "[''ORIGIN (.+)'']"
         and p = "''From: (.+?) to ''" and qs = "[''(.+)'']" and m = "''From: Leeds to ''"
         and details = "[]" and conf = "[]"]
    by (simp add: s field_text_def sample_env_def sample_match_def)
qed

section \<open>Occurrences and the cleaning of patterns\<close>

lemma startswith_append: "startswith sub s \<longleftrightarrow> (\<exists>post. s = sub @ post)"
  by (induction sub arbitrary: s) (auto split: list.splits)

text \<open>\<^const>\<open>py_find\<close> gives the start of the first occurrence.\<close>

lemma py_find_occurrence:
  "py_in sub s \<Longrightarrow> \<exists>pre post. s = pre @ sub @ post \<and> py_find sub s = int (length pre)
      \<and> (\<forall>pre' post'. s = pre' @ sub @ post' \<longrightarrow> length pre \<le> length pre')"
proof (induction s)
  case Nil
  then show ?case by simp
next
  case (Cons c cs)
  show ?case
  proof (cases "startswith sub (c # cs)")
    case True
    have f: "py_find sub (c # cs) = int (length ([]::string))"
      using True by simp
    from True obtain post where "c # cs = [] @ sub @ post" by (auto simp: startswith_append)
    with f show ?thesis by (metis le0 list.size(3))
  next
    case False
    with Cons.prems have "py_in sub cs" by simp
    from Cons.IH [OF this] obtain pre post where
      h: "cs = pre @ sub @ post" "py_find sub cs = int (length pre)"
         "\<forall>pre' post'. cs = pre' @ sub @ post' \<longrightarrow> length pre \<le> length pre'" by blast
    have 1: "c # cs = (c # pre) @ sub @ post" using h by simp
    have 2: "py_find sub (c # cs) = int (length (c # pre))" using h False by (simp add: Let_def)
    have 3: "length (c # pre) \<le> length pre'" if "c # cs = pre' @ sub @ post'" for pre' post'
    proof (cases pre')
      case Nil
      with that False show ?thesis by (simp add: startswith_append)
    next
      case (Cons d ds)
      with that have "cs = ds @ sub @ post'" by simp
      with h(3) Cons show ?thesis by auto
    qed
    from 1 2 3 show ?thesis by blast
  qed
qed

text \<open>What the cleaning computes. The first substitution deletes every \<^verbatim>\<open>+\<close>, so the two
  later ones, for the tokens \<^verbatim>\<open>\d+\<close> and \<^verbatim>\<open>\s+\<close>, find nothing to replace: a cleaned
  pattern is the pattern without the characters \<^verbatim>\<open>()[]{}.+*?|^$\<close>, stripped.\<close>

lemma startswith_set: "startswith sub s \<Longrightarrow> set sub \<subseteq> set s"
  by (auto simp: startswith_append)

lemma py_replace_absent:
  assumes "x \<in> set old" "x \<notin> set s"
  shows "py_replace old new s = s"
  using assms
proof (induction s)
  case Nil
  then show ?case by simp
next
  case (Cons c cs)
  have "\<not> startswith old (c # cs)"
    using startswith_set [of old "c # cs"] Cons.prems by blast
  with Cons show ?case by simp
qed

lemma clean_pattern_filter:
  "clean_pattern pattern = py_strip (filter (\<lambda>ch. ch \<notin> set regex_special) pattern)"
proof -
  let ?c1 = "filter (\<lambda>ch. ch \<notin> set regex_special) pattern"
  have sp: "CHR ''+'' \<in> set regex_special"
    unfolding regex_special_def by simp
  have plus: "CHR ''+'' \<notin> set ?c1"
    using sp by auto
  have a: "py_replace (backslash @ ''d+'') [] ?c1 = ?c1"
    by (rule py_replace_absent [OF _ plus]) simp
  have b: "py_replace (backslash @ ''s+'') '' '' ?c1 = ?c1"
    by (rule py_replace_absent [OF _ plus]) simp
  show ?thesis
    by (simp add: clean_pattern_def Let_def a b)
qed

lemma py_replace_not_in:
  assumes "\<not> py_in old s"
  shows "py_replace old new s = s"
  using assms
proof (induction s)
  case Nil
  then show ?case by simp
next
  case (Cons c cs)
  then show ?case by simp
qed

text \<open>On a pattern without the digit-placeholder token, the cleaning of the code is the
  cleaning the specification words.\<close>

lemma clean_pattern_spec:
  assumes "\<not> py_in (backslash @ ''d+'') pattern"
  shows "clean_pattern pattern = spec_clean pattern"
  using assms by (simp add: clean_pattern_filter spec_clean_def py_replace_not_in)

section \<open>Fuzzy fallback\<close>

lemma fuzzy_patterns_first:
  assumes "\<forall>q \<in> set ps. \<not> (clean_pattern q \<noteq> [] \<and> py_in (clean_pattern q) t
              \<and> nat (py_find (clean_pattern q) t) + length (clean_pattern q) < length t)"
    and "clean_pattern p \<noteq> []" "py_in (clean_pattern p) t"
    and "nat (py_find (clean_pattern p) t) + length (clean_pattern p) < length t"
  shows "fuzzy_patterns n t (ps @ p # qs) (details, conf)
         = (AList.update n (PyStr (possible_value t
                (nat (py_find (clean_pattern p) t) + length (clean_pattern p)))) details,
            AList.update n 0.6 conf)"
  using assms by (induction ps) (auto simp: Let_def)

text \<open>
  Claim C6, as the code has it. The fallback runs for a field when the extracted data
  has no entry under the field's name after the regular expressions (none of them
  matched, and no earlier field of that name stored a value) and the text is non-empty.
  It strips the regular expression metacharacters and the digit-placeholder token from
  each pattern in order and trims the result. Among patterns without the
  digit-placeholder token, the first cleaned pattern that is non-empty, occurs in the
  text and whose first occurrence ends before the end of the text decides: the value
  stored is the text from the end \<open>pos\<close> of that first occurrence, at most 30 characters
  of it, cut at the first newline and stripped, with confidence 0.6. (With the text
  split at the first occurrence as \<open>pre @ cleaned @ post\<close>, the text from \<open>pos\<close> is \<open>post\<close>.)
  A cleaned pattern whose first occurrence ends the text stores nothing, and the loop
  goes on to the next pattern.
\<close>

theorem fuzzy_fallback_first_usable:
  assumes "field_text env img field = Some ocr_text"
    and "ocr_text \<noteq> []"
    and "\<not> has_key details (name field)"
    and "\<forall>q \<in> set (patterns field). re_search env {IGNORECASE, MULTILINE} q ocr_text = None"
    and "patterns field = ps @ p # qs"
    and "\<forall>q \<in> set (ps @ [p]). \<not> py_in (backslash @ ''d+'') q"
    and "\<forall>q \<in> set ps. \<not> (spec_clean q \<noteq> [] \<and> py_in (spec_clean q) ocr_text
           \<and> nat (py_find (spec_clean q) ocr_text) + length (spec_clean q) < length ocr_text)"
    and "spec_clean p \<noteq> []"
    and "py_in (spec_clean p) ocr_text"
    and "pos = nat (py_find (spec_clean p) ocr_text) + length (spec_clean p)"
    and "pos < length ocr_text"
  shows "process_field env img field (details, conf)
           = (AList.update (name field)
                (PyStr (py_strip (takeWhile (\<lambda>ch. ch \<noteq> newline) (take 30 (drop pos ocr_text)))))
                details,
              AList.update (name field) 0.6 conf)
       \<and> (\<exists>pre post. ocr_text = pre @ spec_clean p @ post \<and> post \<noteq> []
              \<and> (\<forall>pre' post'. ocr_text = pre' @ spec_clean p @ post'
                     \<longrightarrow> length pre \<le> length pre')
              \<and> drop pos ocr_text = post)"
proof -
  let ?cp = "spec_clean p"
  have cp: "clean_pattern p = spec_clean p"
    using assms(6) by (intro clean_pattern_spec) simp
  have cps: "\<forall>q \<in> set ps. clean_pattern q = spec_clean q"
    using assms(6) by (auto intro: clean_pattern_spec)
  from py_find_occurrence [OF assms(9)] obtain pre post where
    o: "ocr_text = pre @ ?cp @ post" "py_find ?cp ocr_text = int (length pre)"
       "\<forall>pre' post'. ocr_text = pre' @ ?cp @ post' \<longrightarrow> length pre \<le> length pre'"
    by blast
  have pos: "pos = length (pre @ ?cp)" using o(2) assms(10) by simp
  have d: "drop pos ocr_text = post"
    unfolding pos by (subst o(1)) simp
  have ne: "post \<noteq> []"
  proof
    assume "post = []"
    with o(1) have "length ocr_text = length (pre @ ?cp)" by simp
    with assms(11) pos show False by simp
  qed
  have m: "match_patterns env (name field) ocr_text (patterns field) (details, conf) = (details, conf)"
    using assms(4) by (rule match_patterns_none)
  have "process_field env img field (details, conf)
        = fuzzy_patterns (name field) ocr_text (ps @ p # qs) (details, conf)"
    using assms(1,2,3,5) m by (simp add: process_field_def match_field_def)
  also have "\<dots> = (AList.update (name field)
                       (PyStr (possible_value ocr_text
                          (nat (py_find (clean_pattern p) ocr_text) + length (clean_pattern p))))
                       details,
                     AList.update (name field) 0.6 conf)"
    using assms(7,8,9) assms(11) [unfolded assms(10)] cps
    by (intro fuzzy_patterns_first) (simp_all add: cp)
  finally have "process_field env img field (details, conf)
           = (AList.update (name field)
                (PyStr (py_strip (takeWhile (\<lambda>ch. ch \<noteq> newline) (take 30 (drop pos ocr_text)))))
                details,
              AList.update (name field) 0.6 conf)"
    by (simp add: possible_value_def cp assms(10))
  moreover have "\<exists>pre post. ocr_text = pre @ ?cp @ post \<and> post \<noteq> []
              \<and> (\<forall>pre' post'. ocr_text = pre' @ ?cp @ post' \<longrightarrow> length pre \<le> length pre')
              \<and> drop pos ocr_text = post"
    using o(1,3) ne d by blast
  ultimately show ?thesis by simp
qed

lemmas clean_eval = clean_pattern_def spec_clean_def regex_special_def backslash_def
  py_strip_def py_isspace_def

text \<open>Neither \<^verbatim>\<open>^Expires\<close> nor \<^verbatim>\<open>^Valid\<close> matches the text below, in which no line starts
  with either word; the cleaned second pattern occurs in it.\<close>

theorem fuzzy_fallback_first_usable_witness:
  "process_field
     (sample_env flat_inputs (''Not Valid 12 Jan 2024'' @ [newline] @ ''extra'') [] no_match) Whole
     \<lparr>name = ''date'', patterns = [''^Expires'', ''^Valid''], region = None\<rparr> ([], [])
   = ([(''date'', PyStr ''12 Jan 2024'')], [(''date'', 6 / 10)])"
proof -
  let ?t = "''Not Valid 12 Jan 2024'' @ [newline] @ ''extra''"
  have c1: "spec_clean ''^Expires'' = ''Expires''" and c2: "spec_clean ''^Valid'' = ''Valid''"
    by (simp_all add: clean_eval)
  have i1: "\<not> py_in ''Expires'' ?t" and i2: "py_in ''Valid'' ?t"
    and f: "py_find ''Valid'' ?t = 4"
    by (simp_all add: newline_def)
  show ?thesis
    using fuzzy_fallback_first_usable
      [where env = "sample_env flat_inputs ?t [] no_match" and img = Whole
         and field = "\<lparr>name = ''date'', patterns = [''^Expires'', ''^Valid''], region = None\<rparr>"
         and ocr_text = ?t and ps = "[''^Expires'']" and p = "''^Valid''" and qs = "[]"
         and details = "[]" and conf = "[]" and pos = 9, THEN conjunct1]
    by (simp add: c1 c2 i1 i2 f field_text_def sample_env_def no_match_def has_key_def
        newline_def backslash_def py_strip_def py_isspace_def)
qed

text \<open>The claim as stated fails, in four ways. (1) In the text \<^verbatim>\<open>Date\<close> neither \<^verbatim>\<open>Date.+\<close>
  nor \<^verbatim>\<open>Da...+\<close> matches. The first cleaned pattern, \<^verbatim>\<open>Date\<close>, is non-empty and occurs in
  the text, and nothing follows it; the code does not store the empty string for it, but
  goes on and stores what follows the second cleaned pattern, \<^verbatim>\<open>Da\<close>. (2) A second field
  named \<^verbatim>\<open>date\<close>, when an earlier one stored a value: \<^verbatim>\<open>^Valid\<close> does not match the text
  \<^verbatim>\<open>Not Valid 12\<close>, the cleaned pattern occurs in it, and nothing is stored. (3) The cleaned
  pattern is trimmed: \<^verbatim>\<open>Date \<close>, with its final space, does not match and does not occur
  in the text \<^verbatim>\<open>Date:5\<close>, and the value \<^verbatim>\<open>:5\<close> is stored. (4) The digit-placeholder token
  is not stripped: \<^verbatim>\<open>+\<close> is deleted with the metacharacters before the token is looked
  for, so \<^verbatim>\<open>No\d+\<close> is cleaned to \<^verbatim>\<open>No\d\<close> and not to \<^verbatim>\<open>No\<close>; in the text \<^verbatim>\<open>No 5\<close>, where
  \<^verbatim>\<open>No\<close> occurs, nothing is stored.\<close>

theorem fuzzy_fallback_counterexample:
  "clean_pattern ''Date.+'' = ''Date'' \<and> py_in ''Date'' ''Date''
   \<and> possible_value ''Date'' (nat (py_find ''Date'' ''Date'') + length ''Date'') = []
   \<and> process_field (sample_env flat_inputs ''Date'' [] no_match) Whole
        \<lparr>name = ''date'', patterns = [''Date.+'', ''Da...+''], region = None\<rparr> ([], [])
      = ([(''date'', PyStr ''te'')], [(''date'', 6 / 10)])
   \<and> process_field (sample_env flat_inputs ''Date'' [] no_match) Whole
        \<lparr>name = ''date'', patterns = [''Date.+''], region = None\<rparr> ([], [])
      = ([], [])
   \<and> py_in (clean_pattern ''^Valid'') ''Not Valid 12''
   \<and> process_field (sample_env flat_inputs ''Not Valid 12'' [] no_match) Whole
        \<lparr>name = ''date'', patterns = [''^Valid''], region = None\<rparr>
        ([(''date'', PyStr ''1 Jan'')], [(''date'', 1)])
      = ([(''date'', PyStr ''1 Jan'')], [(''date'', 1)])
   \<and> \<not> py_in ''Date '' ''Date:5''
   \<and> process_field (sample_env flat_inputs ''Date:5'' [] no_match) Whole
        \<lparr>name = ''date'', patterns = [''Date ''], region = None\<rparr> ([], [])
      = ([(''date'', PyStr '':5'')], [(''date'', 6 / 10)])
   \<and> clean_pattern (''No'' @ backslash @ ''d+'') = ''No'' @ backslash @ ''d''
   \<and> spec_clean (''No'' @ backslash @ ''d+'') = ''No'' \<and> py_in ''No'' ''No 5''
   \<and> process_field (sample_env flat_inputs ''No 5'' [] no_match) Whole
        \<lparr>name = ''number'', patterns = [''No'' @ backslash @ ''d+''], region = None\<rparr> ([], [])
      = ([], [])"
  by (simp add: clean_eval possible_value_def process_field_def match_field_def field_text_def
      sample_env_def no_match_def has_key_def newline_def Let_def)

section \<open>Runs in the sample environment\<close>

lemma process_field_blank:
  assumes "field_text env img f = None \<or> field_text env img f = Some []"
    and "\<forall>q \<in> set (patterns f). re_search env {IGNORECASE, MULTILINE} q [] = None"
  shows "process_field env img f (details, conf) = (details, conf)"
  using assms
  by (auto simp: process_field_def match_field_def match_patterns_none)

lemma extract_fields_blank:
  assumes "\<forall>f \<in> set config.
      (field_text env img f = None \<or> field_text env img f = Some [])
      \<and> (\<forall>q \<in> set (patterns f). re_search env {IGNORECASE, MULTILINE} q [] = None)"
  shows "extract_fields env img config (details, conf) = (details, conf)"
  using assms by (induction config) (simp_all add: process_field_blank)

lemma sample_region_text:
  "region f \<noteq> None \<Longrightarrow>
     field_text (sample_env m w [] re) Whole f = None
     \<or> field_text (sample_env m w [] re) Whole f = Some []"
  by (auto simp: field_text_def sample_env_def split: option.splits prod.splits)

lemma sample_extract_blank:
  assumes "\<forall>f \<in> set config. region f \<noteq> None"
  shows "extract_fields (sample_env m w [] no_match) Whole config (details, conf) = (details, conf)"
proof (rule extract_fields_blank, intro ballI conjI)
  fix f assume "f \<in> set config"
  with assms show "field_text (sample_env m w [] no_match) Whole f = None
     \<or> field_text (sample_env m w [] no_match) Whole f = Some []"
    by (intro sample_region_text) blast
next
  fix f q
  show "re_search (sample_env m w [] no_match) {IGNORECASE, MULTILINE} q [] = None"
    by (simp add: sample_env_def no_match_def)
qed

lemma trainline_regions: "\<forall>f \<in> set get_trainline_configuration. region f \<noteq> None"
  by (simp add: get_trainline_configuration_def del: not_None_eq)

lemma gwr_regions: "\<forall>f \<in> set gwr_configuration. region f \<noteq> None"
  by (simp add: gwr_configuration_def del: not_None_eq)

lemma generic_regions: "\<forall>f \<in> set generic_configuration. region f \<noteq> None"
  by (simp add: generic_configuration_def del: not_None_eq)

text \<open>The flat screenshot is digital whatever it reads: no feature adds to the score.\<close>

lemma classify_flat:
  "determine_ticket_type (sample_env flat_inputs w rt re) False Whole = ([], Inr ''digital'')"
  by (simp add: determine_ticket_type_def classify_rest_def sample_env_def flat_inputs_def
      paper_score_def float_0_2_def Let_def)

lemma sample_working_image: "working_image (sample_env m w rt re) tt Whole = Whole"
  by (simp add: working_image_def sample_env_def)

lemma sample_imread: "imread (sample_env m w rt re) ''ticket.jpg'' = Some Whole"
  by (simp add: sample_env_def)

lemma sample_reference_suffix:
  "last6 (py_str (py_int (time_time (sample_env m w rt re)))) = ''200000''"
  by (simp add: sample_env_def last6_def py_str_def py_int_def str_nat_eval)

lemma sample_re_search: "re_search (sample_env m w rt re) flags pattern t = re pattern"
  by (simp add: sample_env_def)

lemma sample_whole_text: "image_to_string (sample_env m w rt re) Whole = w"
  by (simp add: sample_env_def)

lemma sample_str_upper: "str_upper (sample_env m w rt re) = sample_upper"
  by (simp add: sample_env_def)

text \<open>A region of the sample image that is not empty reads the region text.\<close>

lemma sample_region_read:
  assumes "region f = Some r"
    and "roi_size 300 400 (roi_bounds (sample_env m w rt re) r 400 300) \<noteq> 0"
  shows "field_text (sample_env m w rt re) Whole f = Some rt"
proof -
  obtain a b c d where r: "roi_bounds (sample_env m w rt re) r 400 300 = (a, b, c, d)"
    by (cases "roi_bounds (sample_env m w rt re) r 400 300")
  have s: "shape (sample_env m w rt re) Whole = (300, 400)"
    "image_to_string (sample_env m w rt re) (slice (sample_env m w rt re) Whole b d a c) = rt"
    by (simp_all add: sample_env_def)
  show ?thesis
    using assms r by (simp add: field_text_def s)
qed

section \<open>The confidence dictionary after a scan\<close>

lemma match_patterns_inv:
  assumes "keys conf = keys details" "unit_scores conf"
    and "match_patterns env n t ps (details, conf) = (details', conf')"
  shows "keys conf' = keys details' \<and> unit_scores conf'"
  using assms
proof (induction ps)
  case Nil
  then show ?case by simp
next
  case (Cons p ps)
  show ?case
  proof (cases "re_search env {IGNORECASE, MULTILINE} p t")
    case None
    with Cons show ?thesis by simp
  next
    case (Some m)
    with Cons.prems have d: "details' = AList.update n (PyStr (py_strip m)) details"
      and c: "conf' = AList.update n 1 conf" by simp_all
    show ?thesis unfolding d c
      using Cons.prems(1,2) by (simp add: keys_update unit_scores_update)
  qed
qed

lemma fuzzy_patterns_inv:
  assumes "keys conf = keys details" "unit_scores conf"
    and "fuzzy_patterns n t ps (details, conf) = (details', conf')"
  shows "keys conf' = keys details' \<and> unit_scores conf'"
  using assms
proof (induction ps)
  case Nil
  then show ?case by simp
next
  case (Cons p ps)
  let ?cp = "clean_pattern p"
  let ?pos = "nat (py_find ?cp t) + length ?cp"
  show ?case
  proof (cases "?cp \<noteq> [] \<and> py_in ?cp t \<and> ?pos < length t")
    case False
    then have "fuzzy_patterns n t (p # ps) (details, conf) = fuzzy_patterns n t ps (details, conf)"
      by (auto simp: Let_def)
    with Cons.prems(3) have "fuzzy_patterns n t ps (details, conf) = (details', conf')" by simp
    from Cons.IH [OF Cons.prems(1,2) this] show ?thesis .
  next
    case True
    then have "fuzzy_patterns n t (p # ps) (details, conf)
        = (AList.update n (PyStr (possible_value t ?pos)) details, AList.update n 0.6 conf)"
      by (simp add: Let_def)
    with Cons.prems(3) have d: "details' = AList.update n (PyStr (possible_value t ?pos)) details"
      and c: "conf' = AList.update n 0.6 conf" by simp_all
    show ?thesis unfolding d c
      using Cons.prems(1,2) by (simp add: keys_update unit_scores_update)
  qed
qed

lemma process_field_inv:
  assumes "keys conf = keys details" "unit_scores conf"
    and "process_field env img field (details, conf) = (details', conf')"
  shows "keys conf' = keys details' \<and> unit_scores conf'"
proof (cases "field_text env img field")
  case None
  with assms show ?thesis by (simp add: process_field_def)
next
  case (Some t)
  obtain d1 c1 where m: "match_patterns env (name field) t (patterns field) (details, conf) = (d1, c1)"
    by (cases "match_patterns env (name field) t (patterns field) (details, conf)")
  have i1: "keys c1 = keys d1 \<and> unit_scores c1"
    using match_patterns_inv [OF assms(1,2) m] .
  show ?thesis
  proof (cases "\<not> has_key d1 (name field) \<and> t \<noteq> []")
    case True
    with assms(3) Some m have "fuzzy_patterns (name field) t (patterns field) (d1, c1) = (details', conf')"
      by (simp add: process_field_def match_field_def)
    with i1 show ?thesis using fuzzy_patterns_inv by blast
  next
    case False
    then have "match_field env field t (details, conf) = (d1, c1)"
      using m by (auto simp: match_field_def)
    with assms(3) Some have "(d1, c1) = (details', conf')"
      by (simp add: process_field_def)
    with i1 show ?thesis by simp
  qed
qed

lemma extract_fields_inv:
  assumes "keys conf = keys details" "unit_scores conf"
    and "extract_fields env img config (details, conf) = (details', conf')"
  shows "keys conf' = keys details' \<and> unit_scores conf'"
  using assms
proof (induction config arbitrary: details conf)
  case Nil
  then show ?case by simp
next
  case (Cons f fs)
  obtain d1 c1 where p: "process_field env img f (details, conf) = (d1, c1)"
    by (cases "process_field env img f (details, conf)")
  have i: "keys c1 = keys d1" "unit_scores c1"
    using process_field_inv [OF Cons.prems(1,2) p] by simp_all
  have "extract_fields env img fs (d1, c1) = (details', conf')"
    using Cons.prems(3) p by simp
  from Cons.IH [OF i this] show ?case .
qed

lemma extract_ticket_details_inv:
  assumes "extract_ticket_details env sc img n = Inr (details, sc')"
    and "confidence_scores sc = []"
  shows "keys (confidence_scores sc') = keys details \<and> unit_scores (confidence_scores sc')"
proof -
  define cn where "cn = (if \<not> has_key (configurations sc) n then ''generic'' else n)"
  from assms(1) obtain config where "map_of (configurations sc) cn = Some config"
    by (cases "map_of (configurations sc) cn")
       (simp_all add: extract_ticket_details_def cn_def)
  moreover obtain d c where e: "extract_fields env img config ([], []) = (d, c)"
    by (cases "extract_fields env img config ([], [])")
  ultimately have "extract_ticket_details env sc img n = Inr (d, sc\<lparr>confidence_scores := c\<rparr>)"
    using assms(2) by (simp add: extract_ticket_details_def cn_def)
  with assms(1) have s: "details = d" "sc' = sc\<lparr>confidence_scores := c\<rparr>" by simp_all
  have "keys c = keys d \<and> unit_scores c"
    by (rule extract_fields_inv [OF _ _ e]) (simp_all add: keys_def unit_scores_def)
  with s show ?thesis by simp
qed

lemma generate_ticket_reference_result:
  assumes "generate_ticket_reference env sc = Inr sc'"
  shows "\<exists>ref. extracted_data sc' =
            AList.update ''is_reference_generated'' (PyBool True)
              (AList.update ''ticket_reference'' (PyStr ref) (extracted_data sc))
       \<and> confidence_scores sc' = AList.update ''ticket_reference'' 0.5 (confidence_scores sc)"
proof -
  from assms obtain ref_parts where
    "sc' = sc\<lparr>extracted_data :=
               AList.update ''is_reference_generated'' (PyBool True)
                 (AList.update ''ticket_reference'' (PyStr (join_dash ref_parts))
                    (extracted_data sc)),
             confidence_scores :=
               AList.update ''ticket_reference'' 0.5 (confidence_scores sc)\<rparr>"
    unfolding generate_ticket_reference_def
    by (auto split: sum.splits)
  then show ?thesis by (intro exI [of _ "join_dash ref_parts"]) simp
qed

text \<open>The stages of a scan that returns.\<close>

lemma scan_stages:
  assumes "scan env sc image_path = Inr (r, sc')"
  shows "\<exists>original tt details sc2.
      imread env image_path = Some original
    \<and> snd (determine_ticket_type env (debug_roi sc) original) = Inr tt
    \<and> extract_ticket_details env (sc\<lparr>ticket_type := Some tt\<rparr>) (working_image env tt original)
          (select_configuration env (working_image env tt original)) = Inr (details, sc2)
    \<and> (if \<not> has_key details ''ticket_reference''
        then generate_ticket_reference env (sc2\<lparr>extracted_data := details\<rparr>)
        else Inr (sc2\<lparr>extracted_data := details\<rparr>)) = Inr sc'
    \<and> r = \<lparr>result_ticket_type = tt,
            configuration_used = select_configuration env (working_image env tt original),
            data = extracted_data sc', confidence = confidence_scores sc'\<rparr>"
proof -
  from assms obtain original where o: "imread env image_path = Some original"
    by (cases "imread env image_path") (simp_all add: scan_def)
  from assms o obtain tt where t: "snd (determine_ticket_type env (debug_roi sc) original) = Inr tt"
    by (cases "snd (determine_ticket_type env (debug_roi sc) original)") (simp_all add: scan_def)
  let ?w = "working_image env tt original"
  let ?x = "extract_ticket_details env (sc\<lparr>ticket_type := Some tt\<rparr>) ?w (select_configuration env ?w)"
  from assms o t obtain details sc2 where x: "?x = Inr (details, sc2)"
    by (cases ?x) (auto simp: scan_def Let_def)
  let ?g = "(if \<not> has_key details ''ticket_reference''
        then generate_ticket_reference env (sc2\<lparr>extracted_data := details\<rparr>)
        else Inr (sc2\<lparr>extracted_data := details\<rparr>))"
  from assms o t x obtain sc4 where g: "?g = Inr sc4"
    by (cases ?g) (simp_all add: scan_def Let_def)
  from assms o t x g have "sc' = sc4"
    and "r = \<lparr>result_ticket_type = tt, configuration_used = select_configuration env ?w,
            data = extracted_data sc4, confidence = confidence_scores sc4\<rparr>"
    by (auto simp: scan_def Let_def)
  with o t x g show ?thesis by blast
qed

text \<open>
  Claim C1, as the code has it. For a scan that returns, started on a scanner whose
  confidence dictionary is empty (a newly constructed one): every key of the returned
  confidence dictionary is a key of the returned data dictionary, with a score in
  \<open>[0, 1]\<close>; every key of the data dictionary other than \<^verbatim>\<open>is_reference_generated\<close> is a
  key of the confidence dictionary; and \<^verbatim>\<open>ticket_reference\<close> is a key of both.
  Reference synthesis stores the flag \<^verbatim>\<open>is_reference_generated\<close> in the data dictionary
  and gives it no confidence entry.
\<close>

theorem confidence_keys_after_scan:
  assumes "scan env sc image_path = Inr (r, sc')"
    and "confidence_scores sc = []"
  shows "keys (confidence r) \<subseteq> keys (data r)
       \<and> keys (data r) \<subseteq> insert ''is_reference_generated'' (keys (confidence r))
       \<and> unit_scores (confidence r)
       \<and> has_key (data r) ''ticket_reference'' \<and> has_key (confidence r) ''ticket_reference''"
proof -
  from scan_stages [OF assms(1)] obtain original tt details sc2 where
    x: "extract_ticket_details env (sc\<lparr>ticket_type := Some tt\<rparr>)
          (working_image env tt original)
          (select_configuration env (working_image env tt original)) = Inr (details, sc2)"
    and g: "(if \<not> has_key details ''ticket_reference''
             then generate_ticket_reference env (sc2\<lparr>extracted_data := details\<rparr>)
             else Inr (sc2\<lparr>extracted_data := details\<rparr>)) = Inr sc'"
    and r: "data r = extracted_data sc'" "confidence r = confidence_scores sc'"
    by auto
  have inv: "keys (confidence_scores sc2) = keys details" "unit_scores (confidence_scores sc2)"
    using extract_ticket_details_inv [OF x] assms(2) by simp_all
  show ?thesis
  proof (cases "has_key details ''ticket_reference''")
    case True
    with g have "sc' = sc2\<lparr>extracted_data := details\<rparr>" by simp
    then have "data r = details" "confidence r = confidence_scores sc2" using r by simp_all
    with inv True show ?thesis by (auto simp: has_key_keys)
  next
    case False
    with g have "generate_ticket_reference env (sc2\<lparr>extracted_data := details\<rparr>) = Inr sc'"
      by simp
    from generate_ticket_reference_result [OF this] obtain ref where
      d: "extracted_data sc' = AList.update ''is_reference_generated'' (PyBool True)
              (AList.update ''ticket_reference'' (PyStr ref) details)"
      and c: "confidence_scores sc' = AList.update ''ticket_reference'' 0.5 (confidence_scores sc2)"
      by auto
    have u: "unit_scores (confidence r)"
      unfolding r c using inv by (intro unit_scores_update) simp_all
    have k1: "keys (confidence r) = insert ''ticket_reference'' (keys details)"
      unfolding r c using inv by (simp add: keys_update)
    have k2: "keys (data r) = insert ''is_reference_generated'' (insert ''ticket_reference'' (keys details))"
      unfolding r d by (simp add: keys_update)
    show ?thesis unfolding has_key_keys k1 k2 using u by blast
  qed
qed

text \<open>A scan with one configured field, which the first pattern matches; the reference is
  synthesized from the first three characters of the origin.\<close>

theorem confidence_keys_after_scan_witness:
  "scan (sample_env flat_inputs ''From: Leeds to York'' [] sample_match)
     (ticket_scanner
        (Some [(''generic'',
                [\<lparr>name = ''origin_station'', patterns = [''From: (.+?) to ''], region = None\<rparr>])])
        False)
     ''ticket.jpg''
   = Inr (\<lparr>result_ticket_type = ''digital'', configuration_used = ''generic_digital'',
           data = [(''origin_station'', PyStr ''From: Leeds to''),
                   (''ticket_reference'', PyStr ''FRO-200000''),
                   (''is_reference_generated'', PyBool True)],
           confidence = [(''origin_station'', 1), (''ticket_reference'', 5 / 10)]\<rparr>,
          \<lparr>configurations =
             [(''generic'',
               [\<lparr>name = ''origin_station'', patterns = [''From: (.+?) to ''], region = None\<rparr>])],
           ticket_type = Some ''digital'',
           extracted_data = [(''origin_station'', PyStr ''From: Leeds to''),
                             (''ticket_reference'', PyStr ''FRO-200000''),
                             (''is_reference_generated'', PyBool True)],
           confidence_scores = [(''origin_station'', 1), (''ticket_reference'', 5 / 10)],
           debug_roi = False\<rparr>)
   \<and> keys [(''origin_station'', 1::real), (''ticket_reference'', 5 / 10)]
       \<subseteq> keys [(''origin_station'', PyStr ''From: Leeds to''),
               (''ticket_reference'', PyStr ''FRO-200000''),
               (''is_reference_generated'', PyBool True)]
   \<and> unit_scores [(''origin_station'', 1::real), (''ticket_reference'', 5 / 10)]"
proof -
  let ?env = "sample_env flat_inputs ''From: Leeds to York'' [] sample_match"
  have sel: "select_configuration ?env Whole = ''generic_digital''"
    by (simp add: select_configuration_def select_by_text_def sample_env_def
        config_indicators_def matches_any_def str_eval)
  have strip: "py_strip ''From: Leeds to '' = ''From: Leeds to''"
    by (simp add: py_strip_def py_isspace_def)
  have up: "sample_upper ''Fro'' = ''FRO''"
    by (simp add: str_eval)
  have ev: "scan ?env
     (ticket_scanner
        (Some [(''generic'',
                [\<lparr>name = ''origin_station'', patterns = [''From: (.+?) to ''], region = None\<rparr>])])
        False)
     ''ticket.jpg''
   = Inr (\<lparr>result_ticket_type = ''digital'', configuration_used = ''generic_digital'',
           data = [(''origin_station'', PyStr ''From: Leeds to''),
                   (''ticket_reference'', PyStr ''FRO-200000''),
                   (''is_reference_generated'', PyBool True)],
           confidence = [(''origin_station'', 1), (''ticket_reference'', 5 / 10)]\<rparr>,
          \<lparr>configurations =
             [(''generic'',
               [\<lparr>name = ''origin_station'', patterns = [''From: (.+?) to ''], region = None\<rparr>])],
           ticket_type = Some ''digital'',
           extracted_data = [(''origin_station'', PyStr ''From: Leeds to''),
                             (''ticket_reference'', PyStr ''FRO-200000''),
                             (''is_reference_generated'', PyBool True)],
           confidence_scores = [(''origin_station'', 1), (''ticket_reference'', 5 / 10)],
           debug_roi = False\<rparr>)"
    unfolding scan_def
    by (simp add: sample_imread classify_flat sample_working_image sel ticket_scanner_def
        extract_ticket_details_def has_key_def process_field_def field_text_def match_field_def
        sample_re_search sample_whole_text sample_match_def sample_str_upper
        generate_ticket_reference_def ref_token_def sample_reference_suffix strip up)
  from confidence_keys_after_scan [OF ev] ev show ?thesis
    by (simp add: ticket_scanner_def)
qed

text \<open>The claim as stated fails. A flat screenshot in which nothing is read, scanned with
  the default configurations: the reference is synthesized, and the flag
  \<^verbatim>\<open>is_reference_generated\<close> is a key of the data and not of the confidence dictionary.\<close>

theorem confidence_keys_counterexample:
  "scan (sample_env flat_inputs [] [] no_match) (ticket_scanner None False) ''ticket.jpg''
   = Inr (\<lparr>result_ticket_type = ''digital'', configuration_used = ''generic_digital'',
           data = [(''ticket_reference'', PyStr ''200000''),
                   (''is_reference_generated'', PyBool True)],
           confidence = [(''ticket_reference'', 5 / 10)]\<rparr>,
          \<lparr>configurations = get_default_configurations,
           ticket_type = Some ''digital'',
           extracted_data = [(''ticket_reference'', PyStr ''200000''),
                             (''is_reference_generated'', PyBool True)],
           confidence_scores = [(''ticket_reference'', 5 / 10)],
           debug_roi = False\<rparr>)
   \<and> ''is_reference_generated''
        \<in> keys [(''ticket_reference'', PyStr ''200000''), (''is_reference_generated'', PyBool True)]
   \<and> ''is_reference_generated'' \<notin> keys [(''ticket_reference'', 5 / 10 :: real)]"
proof -
  let ?env = "sample_env flat_inputs [] [] no_match"
  have sel: "select_configuration ?env Whole = ''generic_digital''"
    by (simp add: select_configuration_def select_by_text_def sample_env_def
        config_indicators_def matches_any_def str_eval)
  have cfg: "map_of get_default_configurations ''generic_digital'' = Some get_trainline_configuration"
    by (simp add: get_default_configurations_def)
  have ex: "extract_fields ?env Whole get_trainline_configuration ([], []) = ([], [])"
    by (rule sample_extract_blank [OF trainline_regions])
  show ?thesis
    unfolding scan_def
    by (simp add: sample_imread classify_flat sample_working_image sel ticket_scanner_def
        extract_ticket_details_def has_key_def cfg ex keys_def
        generate_ticket_reference_def ref_token_def sample_reference_suffix)
qed

section \<open>Lemmas on reference synthesis\<close>

lemma digit_char_digit: "d < 10 \<Longrightarrow> digit_char d \<in> set ''0123456789''"
  unfolding digit_char_def by (rule nth_mem) simp

lemma str_nat_digits: "set (str_nat n) \<subseteq> set ''0123456789''"
proof (induction n rule: str_nat.induct)
  case (1 n)
  show ?case
  proof (cases "n < 10")
    case True
    then show ?thesis
      using digit_char_digit [of n] by (subst str_nat.simps) simp
  next
    case False
    have "digit_char (n mod 10) \<in> set ''0123456789''"
      by (rule digit_char_digit) simp
    with False 1 show ?thesis
      by (subst str_nat.simps) simp
  qed
qed

lemma length_str_nat: "10 ^ k \<le> n \<Longrightarrow> k < length (str_nat n)"
proof (induction k arbitrary: n)
  case 0
  then show ?case by (subst str_nat.simps) simp
next
  case (Suc k)
  then have "10 \<le> n" "10 ^ k \<le> n div 10"
    using order_trans [of 10 "10 ^ Suc k" n] by (simp_all add: less_eq_div_iff_mult_less_eq)
  then show ?case
    using Suc.IH [of "n div 10"] by (subst str_nat.simps) simp
qed

lemma last6_digits:
  assumes "100000 \<le> t"
  shows "length (last6 (py_str (py_int t))) = 6
       \<and> set (last6 (py_str (py_int t))) \<subseteq> set ''0123456789''"
proof -
  have i: "100000 \<le> py_int t"
    using assms by (simp add: py_int_def le_floor_iff)
  then have s: "py_str (py_int t) = str_nat (nat (py_int t))"
    by (simp add: py_str_def)
  have "10 ^ 5 \<le> nat (py_int t)" using i by simp
  then have "5 < length (str_nat (nat (py_int t)))" by (rule length_str_nat)
  then have "length (last6 (py_str (py_int t))) = 6"
    unfolding s last6_def by simp
  moreover have "set (last6 (py_str (py_int t))) \<subseteq> set ''0123456789''"
    unfolding s last6_def using str_nat_digits set_drop_subset by (rule order_trans [rotated])
  ultimately show ?thesis by simp
qed

lemma str_items_strings: "str_items i (map PyStr ss) = Inr ss"
  by (induction ss arbitrary: i) simp_all

lemma ref_token_spec:
  assumes "\<forall>b. map_of d code_key \<noteq> Some (PyBool b)"
    and "\<forall>b. map_of d station_key \<noteq> Some (PyBool b)"
  shows "ref_token env d code_key station_key
         = Inr (map PyStr (spec_token (str_upper env) d code_key station_key))"
  using assms
  by (auto simp: ref_token_def spec_token_def split: option.splits py_value.splits)

text \<open>Reference synthesis on data whose values are strings.\<close>

lemma generate_ticket_reference_spec:
  assumes "\<forall>k b. map_of (extracted_data sc) k \<noteq> Some (PyBool b)"
  shows "generate_ticket_reference env sc
         = Inr (sc\<lparr>extracted_data :=
                     AList.update ''is_reference_generated'' (PyBool True)
                       (AList.update ''ticket_reference''
                          (PyStr (join_dash
                             (spec_token (str_upper env) (extracted_data sc)
                                ''origin_code'' ''origin_station''
                              @ spec_token (str_upper env) (extracted_data sc)
                                  ''destination_code'' ''destination_station''
                              @ [last6 (py_str (py_int (time_time env)))])))
                          (extracted_data sc)),
                   confidence_scores :=
                     AList.update ''ticket_reference'' 0.5 (confidence_scores sc)\<rparr>)"
proof -
  let ?d = "extracted_data sc"
  let ?o = "spec_token (str_upper env) ?d ''origin_code'' ''origin_station''"
  let ?t = "spec_token (str_upper env) ?d ''destination_code'' ''destination_station''"
  let ?s = "last6 (py_str (py_int (time_time env)))"
  have o: "ref_token env ?d ''origin_code'' ''origin_station'' = Inr (map PyStr ?o)"
    using assms by (intro ref_token_spec) simp_all
  have t: "ref_token env ?d ''destination_code'' ''destination_station'' = Inr (map PyStr ?t)"
    using assms by (intro ref_token_spec) simp_all
  have s: "str_items 0 (map PyStr ?o @ map PyStr ?t @ [PyStr ?s]) = Inr (?o @ ?t @ [?s])"
    using str_items_strings [of 0 "?o @ ?t @ [?s]"] by simp
  show ?thesis
    unfolding generate_ticket_reference_def o t by (simp add: s)
qed

text \<open>Extraction stores strings only, so within a scan the values that reference synthesis
  reads are strings.\<close>

lemma all_strings_update:
  "all_strings d \<Longrightarrow> all_strings (AList.update k (PyStr s) d)"
  by (induction d) (auto simp: all_strings_def)

lemma all_strings_lookup: "all_strings d \<Longrightarrow> map_of d k \<noteq> Some (PyBool b)"
  by (induction d) (auto simp: all_strings_def split: if_splits)

lemma match_patterns_strings:
  "all_strings details \<Longrightarrow> all_strings (fst (match_patterns env n t ps (details, conf)))"
  by (induction ps) (auto simp: all_strings_update split: option.splits)

lemma fuzzy_patterns_strings:
  "all_strings details \<Longrightarrow> all_strings (fst (fuzzy_patterns n t ps (details, conf)))"
  by (induction ps) (auto simp: all_strings_update Let_def)

lemma process_field_strings:
  assumes "all_strings details"
  shows "all_strings (fst (process_field env img field (details, conf)))"
proof (cases "field_text env img field")
  case None
  with assms show ?thesis by (simp add: process_field_def)
next
  case (Some t)
  obtain d1 c1 where m: "match_patterns env (name field) t (patterns field) (details, conf) = (d1, c1)"
    by (cases "match_patterns env (name field) t (patterns field) (details, conf)")
  have s1: "all_strings d1"
    using match_patterns_strings [OF assms, of env "name field" t "patterns field" conf] m by simp
  then have "all_strings (fst (fuzzy_patterns (name field) t (patterns field) (d1, c1)))"
    by (rule fuzzy_patterns_strings)
  with s1 Some m show ?thesis
    by (simp add: process_field_def match_field_def Let_def)
qed

lemma extract_fields_strings:
  "all_strings details \<Longrightarrow> all_strings (fst (extract_fields env img config (details, conf)))"
proof (induction config arbitrary: details conf)
  case Nil
  then show ?case by simp
next
  case (Cons f fs)
  obtain d1 c1 where p: "process_field env img f (details, conf) = (d1, c1)"
    by (cases "process_field env img f (details, conf)")
  have "all_strings d1"
    using process_field_strings [OF Cons.prems, of env img f conf] p by simp
  from Cons.IH [OF this, of c1] p show ?case by simp
qed

lemma extract_ticket_details_strings:
  assumes "extract_ticket_details env sc img n = Inr (details, sc')"
  shows "map_of details k \<noteq> Some (PyBool b)"
proof -
  define cn where "cn = (if \<not> has_key (configurations sc) n then ''generic'' else n)"
  from assms obtain config where c: "map_of (configurations sc) cn = Some config"
    by (cases "map_of (configurations sc) cn")
       (simp_all add: extract_ticket_details_def cn_def)
  obtain d cf where e: "extract_fields env img config ([], confidence_scores sc) = (d, cf)"
    by (cases "extract_fields env img config ([], confidence_scores sc)")
  from assms c e have "details = d"
    by (simp add: extract_ticket_details_def cn_def)
  moreover have "all_strings d"
    using extract_fields_strings [of "[]" env img config "confidence_scores sc"] e
    by (simp add: all_strings_def)
  ultimately show ?thesis by (simp add: all_strings_lookup)
qed

text \<open>The result of a scan, from the results of its stages.\<close>

lemma scan_result:
  assumes "imread env image_path = Some original"
    and "snd (determine_ticket_type env (debug_roi sc) original) = Inr tt"
    and "working = working_image env tt original"
    and "extract_ticket_details env (sc\<lparr>ticket_type := Some tt\<rparr>) working
           (select_configuration env working) = Inr (details, sc2)"
    and "ref = join_dash (spec_token (str_upper env) details ''origin_code'' ''origin_station''
              @ spec_token (str_upper env) details ''destination_code'' ''destination_station''
              @ [last6 (py_str (py_int (time_time env)))])"
    and "d' = AList.update ''is_reference_generated'' (PyBool True)
                (AList.update ''ticket_reference'' (PyStr ref) details)"
    and "c' = AList.update ''ticket_reference'' 0.5 (confidence_scores sc2)"
  shows "scan env sc image_path
         = (if has_key details ''ticket_reference''
            then Inr (\<lparr>result_ticket_type = tt,
                        configuration_used = select_configuration env working,
                        data = details, confidence = confidence_scores sc2\<rparr>,
                      sc2\<lparr>extracted_data := details\<rparr>)
            else Inr (\<lparr>result_ticket_type = tt,
                        configuration_used = select_configuration env working,
                        data = d', confidence = c'\<rparr>,
                      sc2\<lparr>extracted_data := d', confidence_scores := c'\<rparr>))"
proof (cases "has_key details ''ticket_reference''")
  case True
  then show ?thesis
    using assms(1,2,4) unfolding assms(3) by (simp add: scan_def Let_def)
next
  case False
  have "\<forall>k b. map_of (extracted_data (sc2\<lparr>extracted_data := details\<rparr>)) k \<noteq> Some (PyBool b)"
    using extract_ticket_details_strings [OF assms(4)] by simp
  from generate_ticket_reference_spec [OF this, of env]
  have "generate_ticket_reference env (sc2\<lparr>extracted_data := details\<rparr>)
        = Inr (sc2\<lparr>extracted_data := d', confidence_scores := c'\<rparr>)"
    by (simp add: assms(5,6,7))
  with False show ?thesis
    using assms(1,2,4) unfolding assms(3) by (simp add: scan_def Let_def)
qed

text \<open>A scan returns whenever the image decodes, the classifier returns a label and the
  scanner has a \<^verbatim>\<open>generic\<close> configuration to fall back on (the default configurations
  have one).\<close>

lemma scan_returns:
  assumes "imread env image_path = Some original"
    and "snd (determine_ticket_type env (debug_roi sc) original) = Inr tt"
    and "has_key (configurations sc) ''generic''"
  shows "\<exists>r sc'. scan env sc image_path = Inr (r, sc')"
proof -
  let ?sc1 = "sc\<lparr>ticket_type := Some tt\<rparr>"
  let ?w = "working_image env tt original"
  let ?n = "select_configuration env ?w"
  define cn where "cn = (if \<not> has_key (configurations sc) ?n then ''generic'' else ?n)"
  have "has_key (configurations sc) cn"
    using assms(3) by (simp add: cn_def)
  then obtain config where c: "map_of (configurations sc) cn = Some config"
    by (auto simp: has_key_def)
  obtain d cf where e: "extract_fields env ?w config ([], confidence_scores sc) = (d, cf)"
    by (cases "extract_fields env ?w config ([], confidence_scores sc)")
  have x: "extract_ticket_details env ?sc1 ?w ?n = Inr (d, ?sc1\<lparr>confidence_scores := cf\<rparr>)"
    using c e by (simp add: extract_ticket_details_def cn_def)
  show ?thesis
    using scan_result [OF assms(1,2) refl x refl refl refl] by (simp split: if_splits)
qed

section \<open>Reference synthesis\<close>

text \<open>
  Claim C7. When the extraction of a scan produced no \<^verbatim>\<open>ticket_reference\<close>, the scan
  returns with a synthesized one: the reference joins with \<^verbatim>\<open>-\<close> the origin token, the
  destination token and the last six characters of the decimal timestamp, a token being
  the code if the data has one, else the first three characters of the station in upper
  case, else nothing; it is stored with confidence 0.5 and the flag
  \<^verbatim>\<open>is_reference_generated\<close> is set. With the codes \<^verbatim>\<open>LVP\<close> and \<^verbatim>\<open>GRA\<close> and a clock of at
  least 100000 seconds (any time after 2 January 1970, when the timestamp has six
  digits or more) the reference is \<^verbatim>\<open>LVP-GRA-\<close> followed by exactly six digits; with
  neither code nor station for origin and destination it is the timestamp suffix alone.
\<close>

theorem synthesized_reference:
  assumes "imread env image_path = Some original"
    and "snd (determine_ticket_type env (debug_roi sc) original) = Inr tt"
    and "working = working_image env tt original"
    and "extract_ticket_details env (sc\<lparr>ticket_type := Some tt\<rparr>) working
           (select_configuration env working) = Inr (details, sc2)"
    and "\<not> has_key details ''ticket_reference''"
    and "ref = join_dash (spec_token (str_upper env) details ''origin_code'' ''origin_station''
              @ spec_token (str_upper env) details ''destination_code'' ''destination_station''
              @ [last6 (py_str (py_int (time_time env)))])"
  shows "scan env sc image_path
         = Inr (\<lparr>result_ticket_type = tt,
                 configuration_used = select_configuration env working,
                 data = AList.update ''is_reference_generated'' (PyBool True)
                          (AList.update ''ticket_reference'' (PyStr ref) details),
                 confidence = AList.update ''ticket_reference'' 0.5 (confidence_scores sc2)\<rparr>,
                sc2\<lparr>extracted_data :=
                       AList.update ''is_reference_generated'' (PyBool True)
                         (AList.update ''ticket_reference'' (PyStr ref) details),
                     confidence_scores :=
                       AList.update ''ticket_reference'' 0.5 (confidence_scores sc2)\<rparr>)
       \<and> (map_of details ''origin_code'' = Some (PyStr ''LVP'')
            \<and> map_of details ''destination_code'' = Some (PyStr ''GRA'')
            \<and> 100000 \<le> time_time env
          \<longrightarrow> (\<exists>digits. ref = ''LVP-GRA-'' @ digits \<and> length digits = 6
                  \<and> set digits \<subseteq> set ''0123456789''))
       \<and> (\<not> has_key details ''origin_code'' \<and> \<not> has_key details ''origin_station''
            \<and> \<not> has_key details ''destination_code''
            \<and> \<not> has_key details ''destination_station''
          \<longrightarrow> ref = last6 (py_str (py_int (time_time env))))"
proof (intro conjI impI)
  show "scan env sc image_path
         = Inr (\<lparr>result_ticket_type = tt,
                 configuration_used = select_configuration env working,
                 data = AList.update ''is_reference_generated'' (PyBool True)
                          (AList.update ''ticket_reference'' (PyStr ref) details),
                 confidence = AList.update ''ticket_reference'' 0.5 (confidence_scores sc2)\<rparr>,
                sc2\<lparr>extracted_data :=
                       AList.update ''is_reference_generated'' (PyBool True)
                         (AList.update ''ticket_reference'' (PyStr ref) details),
                     confidence_scores :=
                       AList.update ''ticket_reference'' 0.5 (confidence_scores sc2)\<rparr>)"
    using scan_result [OF assms(1,2,3,4,6) refl refl] assms(5) by simp
next
  assume a: "map_of details ''origin_code'' = Some (PyStr ''LVP'')
            \<and> map_of details ''destination_code'' = Some (PyStr ''GRA'')
            \<and> 100000 \<le> time_time env"
  then have "ref = ''LVP-GRA-'' @ last6 (py_str (py_int (time_time env)))"
    by (simp add: assms(6) spec_token_def)
  with last6_digits [of "time_time env"] a
  show "\<exists>digits. ref = ''LVP-GRA-'' @ digits \<and> length digits = 6
          \<and> set digits \<subseteq> set ''0123456789''"
    by blast
next
  assume "\<not> has_key details ''origin_code'' \<and> \<not> has_key details ''origin_station''
            \<and> \<not> has_key details ''destination_code''
            \<and> \<not> has_key details ''destination_station''"
  then show "ref = last6 (py_str (py_int (time_time env)))"
    by (simp add: assms(6) spec_token_def has_key_def)
qed

text \<open>Three scans at 1762200000.5 seconds. The first reads \<^verbatim>\<open>Liverpool to GRA\<close> with a
  station field for the origin and a code field for the destination; the second reads
  \<^verbatim>\<open>LVP GRA\<close> with two code fields; the third reads nothing, with the default
  configurations.\<close>

theorem synthesized_reference_witness:
  "map_sum id fst
     (scan (sample_env flat_inputs ''Liverpool to GRA'' [] route_match)
        (ticket_scanner
           (Some [(''generic'',
                   [\<lparr>name = ''origin_station'', patterns = [''^[A-Za-z]+''], region = None\<rparr>,
                    \<lparr>name = ''destination_code'', patterns = [''[A-Z]{3}$''], region = None\<rparr>])])
           False)
        ''ticket.jpg'')
   = Inr \<lparr>result_ticket_type = ''digital'', configuration_used = ''generic_digital'',
          data = [(''origin_station'', PyStr ''Liverpool''), (''destination_code'', PyStr ''GRA''),
                  (''ticket_reference'', PyStr ''LIV-GRA-200000''),
                  (''is_reference_generated'', PyBool True)],
          confidence = [(''origin_station'', 1), (''destination_code'', 1),
                        (''ticket_reference'', 5 / 10)]\<rparr>
   \<and> map_sum id fst
       (scan (sample_env flat_inputs ''LVP GRA'' [] codes_match)
          (ticket_scanner
             (Some [(''generic'',
                     [\<lparr>name = ''origin_code'', patterns = [''^[A-Z]{3}''], region = None\<rparr>,
                      \<lparr>name = ''destination_code'', patterns = [''[A-Z]{3}$''], region = None\<rparr>])])
             False)
          ''ticket.jpg'')
     = Inr \<lparr>result_ticket_type = ''digital'', configuration_used = ''generic_digital'',
            data = [(''origin_code'', PyStr ''LVP''), (''destination_code'', PyStr ''GRA''),
                    (''ticket_reference'', PyStr ''LVP-GRA-200000''),
                    (''is_reference_generated'', PyBool True)],
            confidence = [(''origin_code'', 1), (''destination_code'', 1),
                          (''ticket_reference'', 5 / 10)]\<rparr>
   \<and> map_sum id fst
       (scan (sample_env flat_inputs [] [] no_match) (ticket_scanner None False) ''ticket.jpg'')
     = Inr \<lparr>result_ticket_type = ''digital'', configuration_used = ''generic_digital'',
            data = [(''ticket_reference'', PyStr ''200000''),
                    (''is_reference_generated'', PyBool True)],
            confidence = [(''ticket_reference'', 5 / 10)]\<rparr>"
proof -
  let ?e1 = "sample_env flat_inputs ''Liverpool to GRA'' [] route_match"
  let ?c1 = "[(''generic'',
               [\<lparr>name = ''origin_station'', patterns = [''^[A-Za-z]+''], region = None\<rparr>,
                \<lparr>name = ''destination_code'', patterns = [''[A-Z]{3}$''], region = None\<rparr>])]"
  let ?e2 = "sample_env flat_inputs ''LVP GRA'' [] codes_match"
  let ?c2 = "[(''generic'',
               [\<lparr>name = ''origin_code'', patterns = [''^[A-Z]{3}''], region = None\<rparr>,
                \<lparr>name = ''destination_code'', patterns = [''[A-Z]{3}$''], region = None\<rparr>])]"
  let ?e3 = "sample_env flat_inputs [] [] no_match"
  have t: "100000 \<le> time_time (sample_env m w rt re)" for m w rt re
    by (simp add: sample_env_def)
  have sel1: "select_configuration ?e1 Whole = ''generic_digital''"
    and sel2: "select_configuration ?e2 Whole = ''generic_digital''"
    and sel3: "select_configuration ?e3 Whole = ''generic_digital''"
    by (simp_all add: select_configuration_def select_by_text_def sample_whole_text
        config_indicators_def matches_any_def str_eval)
  have strip: "py_strip ''Liverpool'' = ''Liverpool''" "py_strip ''GRA'' = ''GRA''"
    "py_strip ''LVP'' = ''LVP''"
    by (simp_all add: py_strip_def py_isspace_def)
  have up: "sample_upper ''Liv'' = ''LIV''"
    by (simp add: str_eval)
  have x1: "extract_ticket_details ?e1 ((ticket_scanner (Some ?c1) False)\<lparr>ticket_type := Some ''digital''\<rparr>)
              Whole ''generic_digital''
            = Inr ([(''origin_station'', PyStr ''Liverpool''), (''destination_code'', PyStr ''GRA'')],
                   (ticket_scanner (Some ?c1) False)
                     \<lparr>ticket_type := Some ''digital'',
                      confidence_scores := [(''origin_station'', 1), (''destination_code'', 1)]\<rparr>)"
    by (simp add: ticket_scanner_def extract_ticket_details_def has_key_def process_field_def
        field_text_def match_field_def sample_re_search sample_whole_text route_match_def strip)
  have x2: "extract_ticket_details ?e2 ((ticket_scanner (Some ?c2) False)\<lparr>ticket_type := Some ''digital''\<rparr>)
              Whole ''generic_digital''
            = Inr ([(''origin_code'', PyStr ''LVP''), (''destination_code'', PyStr ''GRA'')],
                   (ticket_scanner (Some ?c2) False)
                     \<lparr>ticket_type := Some ''digital'',
                      confidence_scores := [(''origin_code'', 1), (''destination_code'', 1)]\<rparr>)"
    by (simp add: ticket_scanner_def extract_ticket_details_def has_key_def process_field_def
        field_text_def match_field_def sample_re_search sample_whole_text codes_match_def strip)
  have cfg: "map_of get_default_configurations ''generic_digital'' = Some get_trainline_configuration"
    by (simp add: get_default_configurations_def)
  have ex: "extract_fields ?e3 Whole get_trainline_configuration ([], []) = ([], [])"
    by (rule sample_extract_blank [OF trainline_regions])
  have x3: "extract_ticket_details ?e3 ((ticket_scanner None False)\<lparr>ticket_type := Some ''digital''\<rparr>)
              Whole ''generic_digital''
            = Inr ([], (ticket_scanner None False)
                         \<lparr>ticket_type := Some ''digital'', confidence_scores := []\<rparr>)"
    by (simp add: ticket_scanner_def extract_ticket_details_def has_key_def cfg ex)
  have a: "map_sum id fst (scan ?e1 (ticket_scanner (Some ?c1) False) ''ticket.jpg'')
   = Inr \<lparr>result_ticket_type = ''digital'', configuration_used = ''generic_digital'',
          data = [(''origin_station'', PyStr ''Liverpool''), (''destination_code'', PyStr ''GRA''),
                  (''ticket_reference'', PyStr ''LIV-GRA-200000''),
                  (''is_reference_generated'', PyBool True)],
          confidence = [(''origin_station'', 1), (''destination_code'', 1),
                        (''ticket_reference'', 5 / 10)]\<rparr>"
    using synthesized_reference
      [where env = ?e1 and sc = "ticket_scanner (Some ?c1) False" and image_path = "''ticket.jpg''"
         and original = Whole and tt = "''digital''" and working = Whole
         and details = "[(''origin_station'', PyStr ''Liverpool''), (''destination_code'', PyStr ''GRA'')]"
         and ref = "''LIV-GRA-200000''", OF sample_imread _ _ _ _ _, THEN conjunct1]
      x1
    by (simp add: classify_flat sample_working_image sel1 has_key_def spec_token_def
        sample_str_upper up sample_reference_suffix ticket_scanner_def)
  have b: "map_sum id fst (scan ?e2 (ticket_scanner (Some ?c2) False) ''ticket.jpg'')
     = Inr \<lparr>result_ticket_type = ''digital'', configuration_used = ''generic_digital'',
            data = [(''origin_code'', PyStr ''LVP''), (''destination_code'', PyStr ''GRA''),
                    (''ticket_reference'', PyStr ''LVP-GRA-200000''),
                    (''is_reference_generated'', PyBool True)],
            confidence = [(''origin_code'', 1), (''destination_code'', 1),
                          (''ticket_reference'', 5 / 10)]\<rparr>"
    using synthesized_reference
      [where env = ?e2 and sc = "ticket_scanner (Some ?c2) False" and image_path = "''ticket.jpg''"
         and original = Whole and tt = "''digital''" and working = Whole
         and details = "[(''origin_code'', PyStr ''LVP''), (''destination_code'', PyStr ''GRA'')]"
         and ref = "''LVP-GRA-200000''", OF sample_imread _ _ _ _ _]
      x2 t [of flat_inputs "''LVP GRA''" "[]" codes_match]
    by (simp add: classify_flat sample_working_image sel2 has_key_def spec_token_def
        sample_str_upper sample_reference_suffix ticket_scanner_def)
  have c: "map_sum id fst (scan ?e3 (ticket_scanner None False) ''ticket.jpg'')
     = Inr \<lparr>result_ticket_type = ''digital'', configuration_used = ''generic_digital'',
            data = [(''ticket_reference'', PyStr ''200000''),
                    (''is_reference_generated'', PyBool True)],
            confidence = [(''ticket_reference'', 5 / 10)]\<rparr>"
    using synthesized_reference
      [where env = ?e3 and sc = "ticket_scanner None False" and image_path = "''ticket.jpg''"
         and original = Whole and tt = "''digital''" and working = Whole
         and details = "[]" and ref = "''200000''", OF sample_imread _ _ _ _ _]
      x3
    by (simp add: classify_flat sample_working_image sel3 has_key_def spec_token_def
        sample_str_upper sample_reference_suffix ticket_scanner_def)
  from a b c show ?thesis by simp
qed

section \<open>The type classifier\<close>

text \<open>The result of the classifier, in closed form. Whenever it returns, the label is
  \<^verbatim>\<open>paper\<close> exactly when
  \<open>1.5 * orange_bar + 1.0 * texture + 0.8 * perspective + 0.7 * shadow - 2.0 * digital_elements\<close>
  exceeds \<open>0.5\<close>, each of the first four features being 1 or 0 by its threshold and
  \<open>digital_elements\<close> being 1 when a QR code is decoded plus 2 when the lowercased text
  contains a wallet phrase. It raises on an empty top region, and with debugging on when
  no line is found.\<close>

lemma determine_ticket_type_result:
  "snd (determine_ticket_type env debug img) =
     (let m = measurements env img in
      case orange_mask m of
        Inl msg \<Rightarrow> Inl (Cv2Error msg)
      | Inr (orange_pixels, mask_size) \<Rightarrow>
          (let ob = (if float_div env (real orange_pixels) (real mask_size) > float_0_2
                     then 1 else 0);
               tx = (if texture_measure m > 10 then 1 else 0);
               pp = (case hough_lines m of
                       Some n \<Rightarrow> if n \<noteq> 0 \<and> angles_std m > float_0_05 then 1 else 0
                     | None \<Rightarrow> 0);
               sh = (if is_bgr m \<and> illumination_var m > 15 then 1 else 0);
               de = (if has_qr m \<noteq> [] then 1 else 0)
                    + (if matches_any wallet_phrases (image_to_string env img) then 2 else 0);
               score = 1.5 * ob + 1.0 * tx + 0.8 * pp + 0.7 * sh - 2.0 * de :: real
           in if mask_size = 0 then Inl (ZeroDivisionError ''division by zero'')
              else if hough_lines m = None \<and> debug
                   then Inl (TypeError (quote @ ''NoneType'' @ quote @ '' object is not iterable''))
                   else Inr (if score > 0.5 then ''paper'' else ''digital'')))"
proof (cases "orange_mask (measurements env img)")
  case (Inl msg)
  then show ?thesis by (simp add: determine_ticket_type_def Let_def)
next
  case (Inr pq)
  obtain p q where pq: "pq = (p, q)" by (cases pq)
  show ?thesis
  proof (cases "hough_lines (measurements env img)")
    case None
    with Inr pq show ?thesis
      by (simp add: determine_ticket_type_def classify_rest_def paper_score_def Let_def)
  next
    case (Some n)
    with Inr pq show ?thesis
      by (simp add: determine_ticket_type_def classify_rest_def paper_score_def float_0_05_def
          Let_def)
  qed
qed

text \<open>
  Claim C8 fails on the code. A photographed paper ticket in which no line is found has
  the features orange bar, texture and shadow, so its score is 3.2 and the classifier
  without debugging returns \<^verbatim>\<open>paper\<close>. With debugging on, the same image gets no label:
  the classifier raises \<^verbatim>\<open>TypeError\<close> in the loop that draws the lines, and the scan ends
  with the error record.
\<close>

theorem paper_label_lost_with_debug:
  "determine_ticket_type (sample_env paper_inputs [] [] no_match) False Whole
     = ([], Inr ''paper'')
   \<and> determine_ticket_type (sample_env paper_inputs [] [] no_match) True Whole
     = ([''_top_region.jpg'', ''_orange_mask.jpg'', ''_texture.jpg'', ''_edges.jpg''],
        Inl (TypeError (quote @ ''NoneType'' @ quote @ '' object is not iterable'')))
   \<and> main (sample_env paper_inputs [] [] no_match) True ''ticket.jpg''
     = JObject [(''error'', JString (quote @ ''NoneType'' @ quote @ '' object is not iterable''))]"
proof -
  have n: "determine_ticket_type (sample_env paper_inputs [] [] no_match) False Whole
     = ([], Inr ''paper'')"
    by (simp add: determine_ticket_type_def classify_rest_def sample_env_def paper_inputs_def
        paper_score_def float_0_2_def matches_any_def wallet_phrases_def str_eval Let_def)
  have d: "determine_ticket_type (sample_env paper_inputs [] [] no_match) True Whole
     = ([''_top_region.jpg'', ''_orange_mask.jpg'', ''_texture.jpg'', ''_edges.jpg''],
        Inl (TypeError (quote @ ''NoneType'' @ quote @ '' object is not iterable'')))"
    by (simp add: determine_ticket_type_def sample_env_def paper_inputs_def float_0_2_def Let_def)
  have m: "main (sample_env paper_inputs [] [] no_match) True ''ticket.jpg''
     = JObject [(''error'', JString (quote @ ''NoneType'' @ quote @ '' object is not iterable''))]"
    by (simp add: main_def scan_def sample_imread d ticket_scanner_def)
  from n d m show ?thesis by simp
qed

section \<open>Debug instrumentation of the classifier\<close>

text \<open>With lines detected, debugging only adds files: the result is the same.\<close>

lemma debug_keeps_label_with_lines:
  assumes "hough_lines (measurements env img) \<noteq> None"
  shows "snd (determine_ticket_type env True img) = snd (determine_ticket_type env False img)"
  using assms
  by (auto simp: determine_ticket_type_def classify_rest_def Let_def split: sum.splits prod.splits)

text \<open>
  Claim C3 fails on the code. On an image in which no line is detected (here the flat
  screenshot), the classifier without debugging returns \<^verbatim>\<open>digital\<close>; with debugging it
  writes four files and then raises \<^verbatim>\<open>TypeError\<close>: the loop that draws the lines sits in
  the branch where \<^verbatim>\<open>lines\<close> is \<^verbatim>\<open>None\<close>. The scan ends with the error record.
\<close>

theorem debug_no_lines_raises:
  "determine_ticket_type (sample_env flat_inputs [] [] no_match) False Whole
     = ([], Inr ''digital'')
   \<and> determine_ticket_type (sample_env flat_inputs [] [] no_match) True Whole
     = ([''_top_region.jpg'', ''_orange_mask.jpg'', ''_texture.jpg'', ''_edges.jpg''],
        Inl (TypeError (quote @ ''NoneType'' @ quote @ '' object is not iterable'')))
   \<and> main (sample_env flat_inputs [] [] no_match) True ''ticket.jpg''
     = JObject [(''error'', JString (quote @ ''NoneType'' @ quote @ '' object is not iterable''))]"
proof -
  have d: "determine_ticket_type (sample_env flat_inputs [] [] no_match) True Whole
     = ([''_top_region.jpg'', ''_orange_mask.jpg'', ''_texture.jpg'', ''_edges.jpg''],
        Inl (TypeError (quote @ ''NoneType'' @ quote @ '' object is not iterable'')))"
    by (simp add: determine_ticket_type_def sample_env_def flat_inputs_def Let_def)
  have m: "main (sample_env flat_inputs [] [] no_match) True ''ticket.jpg''
     = JObject [(''error'', JString (quote @ ''NoneType'' @ quote @ '' object is not iterable''))]"
    by (simp add: main_def scan_def sample_imread d ticket_scanner_def)
  from classify_flat d m show ?thesis by simp
qed

section \<open>An image that does not decode\<close>

text \<open>
  Claim C9. When the image does not decode, the scan raises \<^verbatim>\<open>ValueError\<close> before any
  other stage, and what the command line entry prints is the object with the single key
  \<^verbatim>\<open>error\<close>, whose value is the message of the exception.
\<close>

theorem unreadable_image_error_record:
  assumes "imread env image_path = None"
  shows "scan env sc image_path
           = Inl (ValueError (''Could not load image from '' @ image_path))
       \<and> main env debug image_path
           = JObject [(''error'', JString (''Could not load image from '' @ image_path))]"
  using assms by (simp add: scan_def main_def)

theorem unreadable_image_error_record_witness:
  "scan (sample_env flat_inputs [] [] no_match) (ticket_scanner None False) ''missing.jpg''
     = Inl (ValueError ''Could not load image from missing.jpg'')
   \<and> main (sample_env flat_inputs [] [] no_match) True ''missing.jpg''
     = JObject [(''error'', JString ''Could not load image from missing.jpg'')]"
  using unreadable_image_error_record
    [where env = "sample_env flat_inputs [] [] no_match" and image_path = "''missing.jpg''"
       and sc = "ticket_scanner None False" and debug = True]
  by (simp add: sample_env_def)

section \<open>The configuration reported and the configuration used\<close>

lemma select_by_text_names:
  "select_by_text t \<in> {''gwr'', ''lner'', ''tfl'', ''avanti'', ''trainline_app'', ''generic_digital''}"
  by (simp add: select_by_text_def config_indicators_def)

lemma default_extract_ticket_details:
  assumes "configurations sc = get_default_configurations"
  shows "extract_ticket_details env sc img n
         = (case extract_fields env img
                  (if n = ''gwr'' then gwr_configuration
                   else if n = ''trainline_app'' \<or> n = ''generic_digital''
                        then get_trainline_configuration
                        else generic_configuration)
                  ([], confidence_scores sc) of
              (details, conf) \<Rightarrow> Inr (details, sc\<lparr>confidence_scores := conf\<rparr>))"
  using assms
  by (simp add: extract_ticket_details_def get_default_configurations_def has_key_def)

lemma fuzzy_patterns_none:
  assumes "\<forall>q \<in> set ps. \<not> py_in (clean_pattern q) t"
  shows "fuzzy_patterns n t ps (details, conf) = (details, conf)"
  using assms by (induction ps) simp_all

lemma process_field_no_value:
  assumes "field_text env img f = Some t"
    and "\<forall>q \<in> set (patterns f). re_search env {IGNORECASE, MULTILINE} q t = None"
    and "\<forall>q \<in> set (patterns f). \<not> py_in (clean_pattern q) t"
  shows "process_field env img f (details, conf) = (details, conf)"
  using assms
  by (simp add: process_field_def match_field_def match_patterns_none fuzzy_patterns_none Let_def)

text \<open>
  Claim C10. On a scanner with the default configurations, a scan that returns reports
  as \<^verbatim>\<open>configuration_used\<close> the name the selector returned for the working image, one of
  the six names of the selector's table, and its data is what the extractor found with
  the field list of that name for \<^verbatim>\<open>gwr\<close>, \<^verbatim>\<open>trainline_app\<close> and \<^verbatim>\<open>generic_digital\<close>, and
  with the field list of \<^verbatim>\<open>generic\<close> for the names absent from the configurations,
  \<^verbatim>\<open>lner\<close>, \<^verbatim>\<open>tfl\<close> and \<^verbatim>\<open>avanti\<close>: the returned data and confidence are the result of
  the loop over that field list, with the synthesized reference and its flag added when
  the loop found no reference. The record still reports the selected name.
\<close>

theorem configuration_used_and_fields:
  assumes "configurations sc = get_default_configurations"
    and "scan env sc image_path = Inr (r, sc')"
    and "imread env image_path = Some original"
    and "working = working_image env (result_ticket_type r) original"
    and "used = (if configuration_used r = ''gwr'' then gwr_configuration
                 else if configuration_used r = ''trainline_app''
                         \<or> configuration_used r = ''generic_digital''
                      then get_trainline_configuration
                      else generic_configuration)"
    and "extract_fields env working used ([], confidence_scores sc) = (details, conf)"
  shows "configuration_used r = select_configuration env working
       \<and> configuration_used r
           \<in> {''gwr'', ''lner'', ''tfl'', ''avanti'', ''trainline_app'', ''generic_digital''}
       \<and> (configuration_used r \<in> {''gwr'', ''trainline_app'', ''generic_digital''}
            \<longrightarrow> map_of get_default_configurations (configuration_used r) = Some used)
       \<and> (configuration_used r \<in> {''lner'', ''tfl'', ''avanti''}
            \<longrightarrow> map_of get_default_configurations (configuration_used r) = None
                \<and> used = generic_configuration)
       \<and> (has_key details ''ticket_reference''
            \<longrightarrow> data r = details \<and> confidence r = conf)
       \<and> (\<not> has_key details ''ticket_reference''
            \<longrightarrow> (\<exists>ref. data r = AList.update ''is_reference_generated'' (PyBool True)
                                  (AList.update ''ticket_reference'' (PyStr ref) details))
                \<and> confidence r = AList.update ''ticket_reference'' 0.5 conf)"
proof -
  from scan_stages [OF assms(2)] assms(3) obtain tt details0 sc2 where
    t: "snd (determine_ticket_type env (debug_roi sc) original) = Inr tt"
    and x0: "extract_ticket_details env (sc\<lparr>ticket_type := Some tt\<rparr>)
               (working_image env tt original)
               (select_configuration env (working_image env tt original)) = Inr (details0, sc2)"
    and r: "r = \<lparr>result_ticket_type = tt,
             configuration_used = select_configuration env (working_image env tt original),
             data = extracted_data sc', confidence = confidence_scores sc'\<rparr>"
    by auto
  from r have tt: "result_ticket_type r = tt" by simp
  have w: "working = working_image env tt original"
    using assms(4) tt by simp
  have c: "configuration_used r = select_configuration env working"
    using r w by simp
  have n: "configuration_used r
           \<in> {''gwr'', ''lner'', ''tfl'', ''avanti'', ''trainline_app'', ''generic_digital''}"
    unfolding c select_configuration_def by (rule select_by_text_names)
  have "extract_ticket_details env (sc\<lparr>ticket_type := Some tt\<rparr>) working (configuration_used r)
        = Inr (details, sc\<lparr>ticket_type := Some tt, confidence_scores := conf\<rparr>)"
    using default_extract_ticket_details
      [of "sc\<lparr>ticket_type := Some tt\<rparr>" env working "configuration_used r"]
      assms(1,5,6)
    by simp
  then have x: "extract_ticket_details env (sc\<lparr>ticket_type := Some tt\<rparr>) working
                  (select_configuration env working)
                = Inr (details, sc\<lparr>ticket_type := Some tt, confidence_scores := conf\<rparr>)"
    by (simp add: c)
  have p: "configuration_used r \<in> {''gwr'', ''trainline_app'', ''generic_digital''}
            \<longrightarrow> map_of get_default_configurations (configuration_used r) = Some used"
    using assms(5) by (auto simp: get_default_configurations_def)
  have a: "configuration_used r \<in> {''lner'', ''tfl'', ''avanti''}
            \<longrightarrow> map_of get_default_configurations (configuration_used r) = None
                \<and> used = generic_configuration"
    using assms(5) by (auto simp: get_default_configurations_def)
  from scan_result [OF assms(3) t w x refl refl refl] assms(2)
  have d: "has_key details ''ticket_reference''
            \<longrightarrow> data r = details \<and> confidence r = conf"
    and g: "\<not> has_key details ''ticket_reference''
            \<longrightarrow> (\<exists>ref. data r = AList.update ''is_reference_generated'' (PyBool True)
                                  (AList.update ''ticket_reference'' (PyStr ref) details))
                \<and> confidence r = AList.update ''ticket_reference'' 0.5 conf"
    by (auto split: if_splits)
  from c n p a d g show ?thesis by blast
qed

text \<open>Two flat screenshots. The first reads \<^verbatim>\<open>LNER\<close> as a whole and
  \<^verbatim>\<open>Reference AB-12-CD\<close> in every region: the record reports \<^verbatim>\<open>lner\<close>, which the default
  configurations do not have, and its data is what the generic field list finds, the
  reference; the field list of \<^verbatim>\<open>gwr\<close> finds nothing in this image. The second reads \<^verbatim>\<open>GWR\<close>
  and nothing in any region: the record reports \<^verbatim>\<open>gwr\<close>, the field list of that name finds
  nothing, and the reference is synthesized.\<close>

theorem configuration_used_and_fields_witness:
  "map_sum id fst
     (scan (sample_env flat_inputs ''LNER'' ''Reference AB-12-CD'' reference_match)
        (ticket_scanner None False) ''ticket.jpg'')
   = Inr \<lparr>result_ticket_type = ''digital'', configuration_used = ''lner'',
          data = [(''ticket_reference'', PyStr ''Reference AB-12-CD'')],
          confidence = [(''ticket_reference'', 1)]\<rparr>
   \<and> map_of get_default_configurations ''lner'' = None
   \<and> extract_fields (sample_env flat_inputs ''LNER'' ''Reference AB-12-CD'' reference_match) Whole
        generic_configuration ([], [])
     = ([(''ticket_reference'', PyStr ''Reference AB-12-CD'')], [(''ticket_reference'', 1)])
   \<and> extract_fields (sample_env flat_inputs ''LNER'' ''Reference AB-12-CD'' reference_match) Whole
        gwr_configuration ([], [])
     = ([], [])
   \<and> map_sum id fst
       (scan (sample_env flat_inputs ''GWR'' [] no_match) (ticket_scanner None False) ''ticket.jpg'')
     = Inr \<lparr>result_ticket_type = ''digital'', configuration_used = ''gwr'',
            data = [(''ticket_reference'', PyStr ''200000''),
                    (''is_reference_generated'', PyBool True)],
            confidence = [(''ticket_reference'', 5 / 10)]\<rparr>
   \<and> map_of get_default_configurations ''gwr'' = Some gwr_configuration
   \<and> extract_fields (sample_env flat_inputs ''GWR'' [] no_match) Whole gwr_configuration ([], [])
     = ([], [])"
proof -
  let ?e1 = "sample_env flat_inputs ''LNER'' ''Reference AB-12-CD'' reference_match"
  let ?e2 = "sample_env flat_inputs ''GWR'' [] no_match"
  let ?sc = "ticket_scanner None False"
  have sel1: "select_configuration ?e1 Whole = ''lner''"
    and sel2: "select_configuration ?e2 Whole = ''gwr''"
    by (simp_all add: select_configuration_def select_by_text_def sample_whole_text
        config_indicators_def matches_any_def str_eval)
  have cfg: "map_of get_default_configurations ''lner'' = None"
    "map_of get_default_configurations ''generic'' = Some generic_configuration"
    "map_of get_default_configurations ''gwr'' = Some gwr_configuration"
    by (simp_all add: get_default_configurations_def)
  have mul: "float_mul ?e1 = (*)"
    by (simp add: sample_env_def)
  have rd: "\<forall>f \<in> set generic_configuration. field_text ?e1 Whole f = Some ''Reference AB-12-CD''"
    by (simp add: generic_configuration_def sample_region_read roi_bounds_def mul py_int_def
        roi_size_def slice_len_def slice_index_def)
  have rdg: "\<forall>f \<in> set gwr_configuration. field_text ?e1 Whole f = Some ''Reference AB-12-CD''"
    by (simp add: gwr_configuration_def sample_region_read roi_bounds_def mul py_int_def
        roi_size_def slice_len_def slice_index_def)
  have strip: "py_strip ''Reference AB-12-CD'' = ''Reference AB-12-CD''"
    by (simp add: py_strip_def py_isspace_def)
  have ex1: "extract_fields ?e1 Whole generic_configuration ([], [])
             = ([(''ticket_reference'', PyStr ''Reference AB-12-CD'')], [(''ticket_reference'', 1)])"
    using rd
    by (simp add: generic_configuration_def process_field_def match_field_def has_key_def
        sample_re_search reference_match_def clean_pattern_filter regex_special_def
        backslash_def pound_def py_strip_def py_isspace_def Let_def)
  have exg: "extract_fields ?e1 Whole gwr_configuration ([], []) = ([], [])"
    using rdg
    by (simp add: gwr_configuration_def process_field_def match_field_def has_key_def
        sample_re_search reference_match_def clean_pattern_filter regex_special_def
        backslash_def pound_def py_strip_def py_isspace_def Let_def)
  have ex2: "extract_fields ?e2 Whole gwr_configuration ([], []) = ([], [])"
    by (rule sample_extract_blank [OF gwr_regions])
  have ev1: "scan ?e1 ?sc ''ticket.jpg''
   = Inr (\<lparr>result_ticket_type = ''digital'', configuration_used = ''lner'',
           data = [(''ticket_reference'', PyStr ''Reference AB-12-CD'')],
           confidence = [(''ticket_reference'', 1)]\<rparr>,
          \<lparr>configurations = get_default_configurations,
           ticket_type = Some ''digital'',
           extracted_data = [(''ticket_reference'', PyStr ''Reference AB-12-CD'')],
           confidence_scores = [(''ticket_reference'', 1)],
           debug_roi = False\<rparr>)"
    unfolding scan_def
    by (simp add: sample_imread classify_flat sample_working_image sel1 ticket_scanner_def
        extract_ticket_details_def has_key_def cfg ex1)
  have ev2: "scan ?e2 ?sc ''ticket.jpg''
   = Inr (\<lparr>result_ticket_type = ''digital'', configuration_used = ''gwr'',
           data = [(''ticket_reference'', PyStr ''200000''),
                   (''is_reference_generated'', PyBool True)],
           confidence = [(''ticket_reference'', 5 / 10)]\<rparr>,
          \<lparr>configurations = get_default_configurations,
           ticket_type = Some ''digital'',
           extracted_data = [(''ticket_reference'', PyStr ''200000''),
                             (''is_reference_generated'', PyBool True)],
           confidence_scores = [(''ticket_reference'', 5 / 10)],
           debug_roi = False\<rparr>)"
    unfolding scan_def
    by (simp add: sample_imread classify_flat sample_working_image sel2 ticket_scanner_def
        extract_ticket_details_def has_key_def cfg ex2
        generate_ticket_reference_def ref_token_def sample_reference_suffix)
  from configuration_used_and_fields
    [where sc = ?sc and env = ?e1 and image_path = "''ticket.jpg''"
       and original = Whole and working = Whole and used = generic_configuration
       and details = "[(''ticket_reference'', PyStr ''Reference AB-12-CD'')]"
       and conf = "[(''ticket_reference'', 1)]",
     OF _ ev1]
  have u1: "map_of get_default_configurations ''lner'' = None"
    by (simp add: sample_imread sample_working_image ticket_scanner_def ex1 sel1)
  from configuration_used_and_fields
    [where sc = ?sc and env = ?e2 and image_path = "''ticket.jpg''"
       and original = Whole and working = Whole and used = gwr_configuration
       and details = "[]" and conf = "[]",
     OF _ ev2]
  have u2: "map_of get_default_configurations ''gwr'' = Some gwr_configuration"
    by (simp add: sample_imread sample_working_image ticket_scanner_def ex2 sel2)
  from ev1 ev2 u1 u2 ex1 exg ex2 show ?thesis by simp
qed

end
